theory Spec2Isabelle
  imports Complex_Main "HOL-Library.Word" "HOL-Library.Multiset"
begin

section \<open>Password generator and strength checker (script.js)\<close>

text \<open>
  A shallow embedding of the two engines of \<^verbatim>\<open>script.js\<close>: the password generator
  (\<^verbatim>\<open>generatePassword\<close>, \<^verbatim>\<open>validateOptions\<close>, \<^verbatim>\<open>createPassword\<close>, \<^verbatim>\<open>removeChars\<close>,
  \<^verbatim>\<open>getRandomChar\<close>, \<^verbatim>\<open>shuffleArray\<close>) and the strength analyser
  (\<^verbatim>\<open>checkPasswordStrength\<close>, \<^verbatim>\<open>analyzePassword\<close> and the functions it calls,
  \<^verbatim>\<open>PasswordTester\<close>, \<^verbatim>\<open>AdvancedAnalyzer\<close>, \<^verbatim>\<open>performAdvancedAnalysis\<close>).

  Modelling decisions.
  \<^item> A JavaScript string is a sequence of UTF-16 code units. It is modelled as a
    \<^typ>\<open>string\<close>, whose characters are the code units below 256 (ASCII and Latin-1).
    Every character set of the generator is ASCII.
  \<^item> \<^verbatim>\<open>crypto.getRandomValues(new Uint32Array(1))\<close> is an unbounded source of 32-bit
    words: a function from draw number to word, passed through every function that
    draws and returned advanced, so theorems hold for every sequence of random values.
  \<^item> \<^verbatim>\<open>undefined\<close> (the value of \<^verbatim>\<open>charset[NaN]\<close> when a character set is empty) is
    \<^term>\<open>None\<close>; \<^verbatim>\<open>Array.prototype.join\<close> prints it as the empty string.
  \<^item> \<^verbatim>\<open>options.length\<close> is the integer \<^verbatim>\<open>parseInt\<close> returns, an \<^typ>\<open>int\<close>.
  \<^item> The entropy is a double; finite doubles are idealised as reals, and \<^verbatim>\<open>NaN\<close> and
    \<^verbatim>\<open>-Infinity\<close> are values of their own (see the entropy computation below).
\<close>

subsection \<open>Character sets\<close>

record charSets_t =
  uppercase :: string
  lowercase :: string
  numbers :: string
  symbols :: string
  similar :: string
  ambiguous :: string

text \<open>
  The JavaScript literal of \<^verbatim>\<open>ambiguous\<close> is \<^verbatim>\<open>'{}[]()\/\\"\'\`~,;.<>'\<close>: after its
  escapes are read it holds a slash, a backslash (0x5C), a double quote (0x22), a single
  quote (0x27) and a backtick (0x60) between the brackets and the tilde.
\<close>

definition charSets :: charSets_t where
  "charSets = \<lparr>
     uppercase = ''ABCDEFGHIJKLMNOPQRSTUVWXYZ'',
     lowercase = ''abcdefghijklmnopqrstuvwxyz'',
     numbers = ''0123456789'',
     symbols = ''!@#$%^&*()_+-=[]{}|;:,.<>?'',
     similar = ''0Oo1lI'',
     ambiguous = ''{}[]()/'' @ [CHR 0x5C, CHR 0x22, CHR 0x27, CHR 0x60] @ ''~,;.<>'' \<rparr>"

subsection \<open>Generation options\<close>

record options =
  length_opt :: int
  includeUppercase :: bool
  includeLowercase :: bool
  includeNumbers :: bool
  includeSymbols :: bool
  excludeSimilar :: bool
  excludeAmbiguous :: bool

definition validateOptions :: "options \<Rightarrow> bool" where
  "validateOptions opts \<longleftrightarrow>
     includeUppercase opts \<or> includeLowercase opts \<or>
     includeNumbers opts \<or> includeSymbols opts"

subsection \<open>The random source\<close>

type_synonym rng = "nat \<Rightarrow> 32 word"

definition getRandomValues :: "rng \<Rightarrow> 32 word \<times> rng" where
  "getRandomValues r = (r 0, \<lambda>n. r (Suc n))"

subsection \<open>removeChars, getRandomChar, shuffleArray\<close>

definition removeChars :: "string \<Rightarrow> string \<Rightarrow> string" where
  "removeChars charset charsToRemove =
     filter (\<lambda>char. char \<notin> set charsToRemove) charset"

text \<open>
  \<^verbatim>\<open>charset[array[0] % charset.length]\<close>: on the empty string the remainder is
  \<^verbatim>\<open>NaN\<close> and the read gives \<^verbatim>\<open>undefined\<close>.
\<close>

definition getRandomChar :: "string \<Rightarrow> rng \<Rightarrow> char option \<times> rng" where
  "getRandomChar charset r =
     (let (w, r') = getRandomValues r
      in (if charset = [] then None
          else Some (charset ! (unat w mod length charset)), r'))"

text \<open>
  The loop \<^verbatim>\<open>for (let i = array.length - 1; i > 0; i--)\<close>, by recursion on \<^verbatim>\<open>i\<close>. The
  destructuring assignment reads both elements before it writes either.
\<close>

fun shuffleLoop :: "nat \<Rightarrow> 'a list \<Rightarrow> rng \<Rightarrow> 'a list \<times> rng" where
  "shuffleLoop 0 array r = (array, r)"
| "shuffleLoop (Suc k) array r =
     (let (w, r') = getRandomValues r;
          i = Suc k;
          j = unat w mod (i + 1)
      in shuffleLoop k (array[i := array ! j, j := array ! i]) r')"

text \<open>
  On the empty array \<^verbatim>\<open>array.length - 1\<close> is \<open>-1\<close> and the loop does not run; the
  truncating subtraction of \<^typ>\<open>nat\<close> gives 0 and the same result.
\<close>

definition shuffleArray :: "'a list \<Rightarrow> rng \<Rightarrow> 'a list \<times> rng" where
  "shuffleArray array r = shuffleLoop (length array - 1) array r"

subsection \<open>createPassword\<close>

text \<open>The filtered class strings, named as the local variables of \<^verbatim>\<open>createPassword\<close>.\<close>

definition upperChars :: "options \<Rightarrow> string" where
  "upperChars opts =
     (if excludeSimilar opts then removeChars (uppercase charSets) (similar charSets)
      else uppercase charSets)"

definition lowerChars :: "options \<Rightarrow> string" where
  "lowerChars opts =
     (if excludeSimilar opts then removeChars (lowercase charSets) (similar charSets)
      else lowercase charSets)"

definition numberChars :: "options \<Rightarrow> string" where
  "numberChars opts =
     (if excludeSimilar opts then removeChars (numbers charSets) (similar charSets)
      else numbers charSets)"

definition symbolChars :: "options \<Rightarrow> string" where
  "symbolChars opts =
     (if excludeAmbiguous opts then removeChars (symbols charSets) (ambiguous charSets)
      else symbols charSets)"

text \<open>
  The state of the first half of \<^verbatim>\<open>createPassword\<close>: \<^verbatim>\<open>charset\<close>,
  \<^verbatim>\<open>guaranteedChars\<close> and the random source. Each of the four \<^verbatim>\<open>if\<close> blocks appends
  the class string to \<^verbatim>\<open>charset\<close> and pushes one character drawn from that class.
\<close>

type_synonym build = "string \<times> char option list \<times> rng"

definition pushClass :: "string \<Rightarrow> build \<Rightarrow> build" where
  "pushClass chars b =
     (case b of (charset, guaranteedChars, r) \<Rightarrow>
        (let (c, r') = getRandomChar chars r
         in (charset @ chars, guaranteedChars @ [c], r')))"

definition buildClasses :: "options \<Rightarrow> rng \<Rightarrow> build" where
  "buildClasses opts r =
     (let b0 = ([], [], r);
          b1 = (if includeUppercase opts then pushClass (upperChars opts) b0 else b0);
          b2 = (if includeLowercase opts then pushClass (lowerChars opts) b1 else b1);
          b3 = (if includeNumbers opts then pushClass (numberChars opts) b2 else b2);
          b4 = (if includeSymbols opts then pushClass (symbolChars opts) b3 else b3)
      in b4)"

text \<open>The loop \<^verbatim>\<open>for (let i = 0; i < remainingLength; i++)\<close>, by its number of rounds.\<close>

fun randomLoop :: "nat \<Rightarrow> string \<Rightarrow> rng \<Rightarrow> char option list \<times> rng" where
  "randomLoop 0 charset r = ([], r)"
| "randomLoop (Suc n) charset r =
     (let (c, r') = getRandomChar charset r;
          (cs, r'') = randomLoop n charset r'
      in (c # cs, r''))"

definition join :: "char option list \<Rightarrow> string" where
  "join xs = concat (map (\<lambda>x. case x of None \<Rightarrow> [] | Some c \<Rightarrow> [c]) xs)"

definition createPassword :: "options \<Rightarrow> rng \<Rightarrow> string \<times> rng" where
  "createPassword opts r =
     (case buildClasses opts r of (charset, guaranteedChars, r1) \<Rightarrow>
        (let remainingLength = length_opt opts - int (length guaranteedChars);
             (randomChars, r2) = randomLoop (nat remainingLength) charset r1;
             allChars = guaranteedChars @ randomChars;
             (shuffled, r3) = shuffleArray allChars r2
         in (join shuffled, r3)))"

text \<open>The number of selected classes, \<open>numSelectedClasses\<close> in the specification.\<close>

definition numSelectedClasses :: "options \<Rightarrow> nat" where
  "numSelectedClasses opts =
     (if includeUppercase opts then 1 else 0) + (if includeLowercase opts then 1 else 0) +
     (if includeNumbers opts then 1 else 0) + (if includeSymbols opts then 1 else 0)"

section \<open>Strength analyser\<close>

subsection \<open>Characters, regular-expression classes and string functions\<close>

definition code :: "char \<Rightarrow> nat" where
  "code c = of_char c"

text \<open>The classes \<^verbatim>\<open>[A-Z]\<close>, \<^verbatim>\<open>[a-z]\<close>, \<^verbatim>\<open>\d\<close>, \<^verbatim>\<open>[^A-Za-z0-9]\<close> and \<^verbatim>\<open>\w\<close>.\<close>

definition isUpperAZ :: "char \<Rightarrow> bool" where
  "isUpperAZ c \<longleftrightarrow> 65 \<le> code c \<and> code c \<le> 90"

definition isLowerAZ :: "char \<Rightarrow> bool" where
  "isLowerAZ c \<longleftrightarrow> 97 \<le> code c \<and> code c \<le> 122"

definition isDigit :: "char \<Rightarrow> bool" where
  "isDigit c \<longleftrightarrow> 48 \<le> code c \<and> code c \<le> 57"

definition isNonAlnum :: "char \<Rightarrow> bool" where
  "isNonAlnum c \<longleftrightarrow> \<not> (isUpperAZ c \<or> isLowerAZ c \<or> isDigit c)"

definition isWordChar :: "char \<Rightarrow> bool" where
  "isWordChar c \<longleftrightarrow> isUpperAZ c \<or> isLowerAZ c \<or> isDigit c \<or> c = CHR ''_''"

text \<open>\<^verbatim>\<open>regex.test(s)\<close> for a regular expression that is one character class.\<close>

definition test :: "(char \<Rightarrow> bool) \<Rightarrow> string \<Rightarrow> bool" where
  "test cls s = list_ex cls s"

text \<open>
  \<^verbatim>\<open>String.prototype.toLowerCase\<close> on code units below 256: the letters \<^verbatim>\<open>A-Z\<close> and the
  Latin-1 capitals 0xC0 to 0xDE (but the multiplication sign 0xD7) move up by 32, every
  other code unit stays.
\<close>

definition toLowerCaseChar :: "char \<Rightarrow> char" where
  "toLowerCaseChar c =
     (if isUpperAZ c \<or> (192 \<le> code c \<and> code c \<le> 222 \<and> code c \<noteq> 215)
      then char_of (code c + 32) else c)"

definition toLowerCase :: "string \<Rightarrow> string" where
  "toLowerCase s = map toLowerCaseChar s"

text \<open>
  Case folding of the \<^verbatim>\<open>i\<close> flag (without the \<^verbatim>\<open>u\<close> flag) against patterns of ASCII
  letters: a code unit matches a pattern letter when it is that letter in either case;
  no code unit outside ASCII matches an ASCII letter.
\<close>

definition ignoreCase :: "string \<Rightarrow> string" where
  "ignoreCase s = map (\<lambda>c. if isUpperAZ c then char_of (code c + 32) else c) s"

text \<open>\<^verbatim>\<open>s.includes(searchString)\<close>: the search string occurs at some position.\<close>

fun includes_str :: "string \<Rightarrow> string \<Rightarrow> bool" where
  "includes_str [] searchString = (searchString = [])"
| "includes_str (c # cs) searchString =
     (take (length searchString) (c # cs) = searchString \<or> includes_str cs searchString)"

text \<open>\<^verbatim>\<open>s.substring(start, end)\<close> for \<open>start \<le> end\<close>; both indices are clamped to the length.\<close>

definition substring :: "string \<Rightarrow> nat \<Rightarrow> nat \<Rightarrow> string" where
  "substring s start end_index = take (end_index - start) (drop start s)"

text \<open>\<^verbatim>\<open>chars.indexOf(x)\<close>: the first index of \<open>x\<close>, or \<open>-1\<close>.\<close>

fun indexOf :: "'a list \<Rightarrow> 'a \<Rightarrow> int" where
  "indexOf [] x = -1"
| "indexOf (y # ys) x =
     (if y = x then 0 else (let k = indexOf ys x in if k < 0 then -1 else k + 1))"

subsection \<open>JavaScript numbers of the entropy computation\<close>

text \<open>
  \<^verbatim>\<open>calculateEntropy\<close> computes \<^verbatim>\<open>password.length * Math.log2(charset)\<close> in IEEE doubles.
  A finite double is idealised as the real number it rounds; \<^verbatim>\<open>Math.log2(0)\<close> is
  \<^verbatim>\<open>-Infinity\<close> and \<^verbatim>\<open>0 * -Infinity\<close> is \<^verbatim>\<open>NaN\<close>, which are values of their own. Every
  comparison with \<^verbatim>\<open>NaN\<close> is false.

  The idealisation changes no comparison the program makes: \<^verbatim>\<open>charset\<close> is a sum of
  26, 26, 10 and 32, and the product meets a threshold (40, 50 or 60) exactly only when
  \<^verbatim>\<open>charset\<close> is 32, where the doubles agree with the reals as long as
  \<^verbatim>\<open>Math.log2(32)\<close> is exactly 5; for every other value of \<^verbatim>\<open>charset\<close> the product is
  at least 0.09 away from each threshold, far more than the rounding error.
\<close>

datatype jsnumber = Finite real | NegInfinity | NaN

definition log2 :: "nat \<Rightarrow> jsnumber" where
  "log2 n = (if n = 0 then NegInfinity else Finite (log 2 (real n)))"

definition times :: "nat \<Rightarrow> jsnumber \<Rightarrow> jsnumber" where
  "times n x =
     (case x of
        Finite v \<Rightarrow> Finite (real n * v)
      | NegInfinity \<Rightarrow> (if n = 0 then NaN else NegInfinity)
      | NaN \<Rightarrow> NaN)"

definition numGreater :: "jsnumber \<Rightarrow> real \<Rightarrow> bool" where
  "numGreater x k = (case x of Finite v \<Rightarrow> k < v | NegInfinity \<Rightarrow> False | NaN \<Rightarrow> False)"

definition numLess :: "jsnumber \<Rightarrow> real \<Rightarrow> bool" where
  "numLess x k = (case x of Finite v \<Rightarrow> v < k | NegInfinity \<Rightarrow> True | NaN \<Rightarrow> False)"

subsection \<open>analyzePassword\<close>

record analysis =
  length_a :: nat
  hasUppercase :: bool
  hasLowercase :: bool
  hasNumbers :: bool
  hasSymbols :: bool
  hasRepeated :: bool
  hasSequential :: bool
  entropy :: jsnumber
  score :: int
  level :: string

definition hasRepeatedChars :: "string \<Rightarrow> bool" where
  "hasRepeatedChars password =
     (let chars = password;
          repeated = filter (\<lambda>(char, index). indexOf chars char \<noteq> int index)
                       (zip chars [0..<length chars])
      in length repeated > 0)"

definition sequences :: "string list" where
  "sequences = [''0123456789'', ''abcdefghijklmnopqrstuvwxyz'', ''qwertyuiop'',
                ''asdfghjkl'', ''zxcvbnm'']"

text \<open>
  The nested loops of \<^verbatim>\<open>hasSequentialChars\<close> return true at the first window found, so
  the result is the existence of a sequence and of an index \<open>i < seq.length - 2\<close>.
\<close>

definition hasSequentialChars :: "string \<Rightarrow> bool" where
  "hasSequentialChars password =
     list_ex (\<lambda>seq.
        list_ex (\<lambda>i.
           (let subseq = substring seq i (i + 3)
            in includes_str (toLowerCase password) subseq \<or>
               includes_str (toLowerCase password) (rev subseq)))
          [0..<length seq - 2])
       sequences"

definition calculateEntropy :: "string \<Rightarrow> jsnumber" where
  "calculateEntropy password =
     (let charset = (0::nat);
          charset = (if test isLowerAZ password then charset + 26 else charset);
          charset = (if test isUpperAZ password then charset + 26 else charset);
          charset = (if test isDigit password then charset + 10 else charset);
          charset = (if test isNonAlnum password then charset + 32 else charset)
      in times (length password) (log2 charset))"

definition calculateStrengthScore :: "analysis \<Rightarrow> int" where
  "calculateStrengthScore a =
     (let score = (0::int);
          score = (if length_a a \<ge> 8 then score + 25 else score);
          score = (if length_a a \<ge> 12 then score + 15 else score);
          score = (if length_a a \<ge> 16 then score + 10 else score);
          score = (if hasUppercase a then score + 10 else score);
          score = (if hasLowercase a then score + 10 else score);
          score = (if hasNumbers a then score + 10 else score);
          score = (if hasSymbols a then score + 15 else score);
          score = (if numGreater (entropy a) 40 then score + 10 else score);
          score = (if numGreater (entropy a) 60 then score + 5 else score);
          score = (if hasRepeated a then score - 10 else score);
          score = (if hasSequential a then score - 15 else score);
          score = (if length_a a < 8 then score - 20 else score)
      in max 0 (min 100 score))"

definition getStrengthLevel :: "int \<Rightarrow> string" where
  "getStrengthLevel s =
     (if s \<ge> 90 then ''Excellent''
      else if s \<ge> 75 then ''Strong''
      else if s \<ge> 60 then ''Good''
      else if s \<ge> 40 then ''Fair''
      else if s \<ge> 20 then ''Weak''
      else ''Very Weak'')"

definition analyzePassword :: "string \<Rightarrow> analysis" where
  "analyzePassword password =
     (let a = \<lparr> length_a = length password,
                hasUppercase = test isUpperAZ password,
                hasLowercase = test isLowerAZ password,
                hasNumbers = test isDigit password,
                hasSymbols = test isNonAlnum password,
                hasRepeated = hasRepeatedChars password,
                hasSequential = hasSequentialChars password,
                entropy = calculateEntropy password,
                score = 0,
                level = ''Very Weak'' \<rparr>;
          a = a\<lparr>score := calculateStrengthScore a\<rparr>;
          a = a\<lparr>level := getStrengthLevel (score a)\<rparr>
      in a)"

subsection \<open>checkPasswordStrength and the strength display\<close>

text \<open>
  The part of the page \<^verbatim>\<open>checkPasswordStrength\<close> writes: the progress bar (its width in
  percent and its class list), the label, the score text (\<open>None\<close> is the empty text,
  \<open>Some s\<close> the text \<^verbatim>\<open>s/100\<close>), for each criterion id whether the element carries the
  class \<^verbatim>\<open>met\<close>, the items of the suggestion list and the \<^verbatim>\<open>display\<close> style of the
  suggestion container.
\<close>

record display =
  progressWidth :: int
  progressClasses :: "string list"
  strengthLabel :: string
  strengthScore :: "int option"
  criteriaMet :: "string \<Rightarrow> bool"
  suggestionsList :: "string list"
  suggestionsDisplay :: string

text \<open>\<^verbatim>\<open>s.replace(' ', '-')\<close>: only the first occurrence is replaced.\<close>

fun replaceFirst :: "char \<Rightarrow> char \<Rightarrow> string \<Rightarrow> string" where
  "replaceFirst a b [] = []"
| "replaceFirst a b (c # cs) = (if c = a then b # cs else c # replaceFirst a b cs)"

definition updateStrengthMeter :: "analysis \<Rightarrow> display \<Rightarrow> display" where
  "updateStrengthMeter a d =
     (let levelClass = ''strength-'' @ replaceFirst CHR '' '' CHR ''-'' (toLowerCase (level a))
      in d\<lparr> progressWidth := score a,
             progressClasses := [''strength-progress'', levelClass],
             strengthLabel := level a,
             strengthScore := Some (score a) \<rparr>)"

definition resetStrengthMeter :: "display \<Rightarrow> display" where
  "resetStrengthMeter d =
     (let criteria = [''lengthCriterion'', ''uppercaseCriterion'', ''lowercaseCriterion'',
                      ''numberCriterion'', ''symbolCriterion'', ''lengthBonusCriterion'']
      in d\<lparr> progressWidth := 0,
             progressClasses := [''strength-progress''],
             strengthLabel := ''Enter a password to check'',
             strengthScore := None,
             criteriaMet := fold (\<lambda>id m. m(id := False)) criteria (criteriaMet d),
             suggestionsDisplay := ''none'' \<rparr>)"

definition updateCriteria :: "string \<Rightarrow> analysis \<Rightarrow> display \<Rightarrow> display" where
  "updateCriteria password a d =
     (let criteria = [(''lengthCriterion'', length password \<ge> 8),
                      (''uppercaseCriterion'', hasUppercase a),
                      (''lowercaseCriterion'', hasLowercase a),
                      (''numberCriterion'', hasNumbers a),
                      (''symbolCriterion'', hasSymbols a),
                      (''lengthBonusCriterion'', length password \<ge> 12)]
      in d\<lparr> criteriaMet := fold (\<lambda>(id, v) m. m(id := v)) criteria (criteriaMet d) \<rparr>)"

definition updateSuggestions :: "analysis \<Rightarrow> display \<Rightarrow> display" where
  "updateSuggestions a d =
     (let suggestions = [];
          suggestions = (if length_a a < 8
            then suggestions @ [''Use at least 8 characters''] else suggestions);
          suggestions = (if length_a a < 12
            then suggestions @ [''Use 12+ characters for better security''] else suggestions);
          suggestions = (if \<not> hasUppercase a
            then suggestions @ [''Add uppercase letters''] else suggestions);
          suggestions = (if \<not> hasLowercase a
            then suggestions @ [''Add lowercase letters''] else suggestions);
          suggestions = (if \<not> hasNumbers a
            then suggestions @ [''Add numbers''] else suggestions);
          suggestions = (if \<not> hasSymbols a
            then suggestions @ [''Add special characters''] else suggestions);
          suggestions = (if hasRepeated a
            then suggestions @ [''Avoid repeated characters''] else suggestions);
          suggestions = (if hasSequential a
            then suggestions @ [''Avoid sequential characters''] else suggestions)
      in if length suggestions > 0
         then d\<lparr> suggestionsList := suggestions, suggestionsDisplay := ''block'' \<rparr>
         else d\<lparr> suggestionsDisplay := ''none'' \<rparr>)"

text \<open>\<^verbatim>\<open>if (!password)\<close>: of all strings only the empty one is falsy.\<close>

definition checkPasswordStrength :: "string \<Rightarrow> display \<Rightarrow> display" where
  "checkPasswordStrength password d =
     (if password = [] then resetStrengthMeter d
      else (let a = analyzePassword password;
                d = updateStrengthMeter a d;
                d = updateCriteria password a d;
                d = updateSuggestions a d
            in d))"

subsection \<open>PasswordTester\<close>

definition commonPasswords :: "string list" where
  "commonPasswords = [''password'', ''123456'', ''password123'', ''admin'', ''qwerty'',
                      ''letmein'', ''welcome'', ''monkey'', ''1234567890'', ''abc123'']"

definition isCommonPassword :: "string \<Rightarrow> bool" where
  "isCommonPassword password =
     list_ex (\<lambda>common. includes_str (toLowerCase password) (toLowerCase common))
       commonPasswords"

text \<open>
  The anchored patterns of \<^verbatim>\<open>checkAgainstLeaks\<close>. \<open>literalThenDigits lit n s\<close> is
  \<^verbatim>\<open>/^lit\d{n,}$/i\<close>: the whole string is the literal, in either case, followed by at
  least \<open>n\<close> digits and nothing else. \<open>wholeOf cls lo hi s\<close> is \<^verbatim>\<open>/^cls{lo,hi}$/\<close>.
\<close>

definition literalThenDigits :: "string \<Rightarrow> nat \<Rightarrow> string \<Rightarrow> bool" where
  "literalThenDigits lit n s \<longleftrightarrow>
     ignoreCase (take (length lit) s) = lit \<and>
     n \<le> length (drop (length lit) s) \<and>
     list_all isDigit (drop (length lit) s)"

definition wholeOf :: "(char \<Rightarrow> bool) \<Rightarrow> nat \<Rightarrow> nat \<Rightarrow> string \<Rightarrow> bool" where
  "wholeOf cls lo hi s \<longleftrightarrow> lo \<le> length s \<and> length s \<le> hi \<and> list_all cls s"

definition checkAgainstLeaks :: "string \<Rightarrow> bool" where
  "checkAgainstLeaks password =
     list_ex (\<lambda>pattern. pattern password)
       [literalThenDigits ''password'' 1,
        literalThenDigits ''admin'' 0,
        literalThenDigits ''user'' 0,
        literalThenDigits ''test'' 0,
        wholeOf isDigit 4 8,
        wholeOf (\<lambda>c. isLowerAZ c \<or> isUpperAZ c) 1 8]"

subsection \<open>AdvancedAnalyzer\<close>

definition keyboardRows :: "string list" where
  "keyboardRows = [''qwertyuiop'', ''asdfghjkl'', ''zxcvbnm'', ''1234567890'']"

text \<open>The loop \<^verbatim>\<open>for (let i = 0; i <= row.length - 3; i++)\<close> returns at the first match.\<close>

definition isKeyboardPattern :: "string \<Rightarrow> bool" where
  "isKeyboardPattern password =
     list_ex (\<lambda>row.
        list_ex (\<lambda>i. includes_str (toLowerCase password) (substring row i (i + 3)))
          [0..<length row - 2])
       keyboardRows"

definition commonWords :: "string list" where
  "commonWords = [''password'', ''welcome'', ''hello'', ''world'', ''love'', ''family'',
                  ''friend'', ''computer'', ''internet'', ''security'', ''login'']"

definition isDictionaryWord :: "string \<Rightarrow> bool" where
  "isDictionaryWord password =
     list_ex (\<lambda>word. includes_str (toLowerCase password) word) commonWords"

text \<open>
  The unanchored patterns of \<^verbatim>\<open>mightBePersonalInfo\<close>. A pattern of fixed length is a
  list of character classes; \<open>matchesHere\<close> matches it at the start of a string and
  \<open>search\<close> at any position.
\<close>

fun matchesHere :: "(char \<Rightarrow> bool) list \<Rightarrow> string \<Rightarrow> bool" where
  "matchesHere [] s = True"
| "matchesHere (p # ps) [] = False"
| "matchesHere (p # ps) (c # cs) = (p c \<and> matchesHere ps cs)"

fun search :: "(char \<Rightarrow> bool) list \<Rightarrow> string \<Rightarrow> bool" where
  "search ps [] = matchesHere ps []"
| "search ps (c # cs) = (matchesHere ps (c # cs) \<or> search ps cs)"

definition lit :: "char \<Rightarrow> char \<Rightarrow> bool" where
  "lit a c \<longleftrightarrow> c = a"

text \<open>
  \<^verbatim>\<open>/\b(jan|feb|...|dec)/i\<close>. \<open>wordBoundary prev rest\<close> is the assertion \<^verbatim>\<open>\b\<close> at a
  position with the code unit \<open>prev\<close> before it (\<open>None\<close> at the start) and the string
  \<open>rest\<close> after it: exactly one of the two neighbours is a word character.
\<close>

definition months :: "string list" where
  "months = [''jan'', ''feb'', ''mar'', ''apr'', ''may'', ''jun'',
             ''jul'', ''aug'', ''sep'', ''oct'', ''nov'', ''dec'']"

definition wordBoundary :: "char option \<Rightarrow> string \<Rightarrow> bool" where
  "wordBoundary prev rest \<longleftrightarrow>
     (case prev of None \<Rightarrow> False | Some c \<Rightarrow> isWordChar c) \<noteq>
     (case rest of [] \<Rightarrow> False | c # cs \<Rightarrow> isWordChar c)"

definition monthHere :: "char option \<Rightarrow> string \<Rightarrow> bool" where
  "monthHere prev rest \<longleftrightarrow>
     wordBoundary prev rest \<and> list_ex (\<lambda>m. ignoreCase (take 3 rest) = m) months"

fun searchMonth :: "char option \<Rightarrow> string \<Rightarrow> bool" where
  "searchMonth prev [] = monthHere prev []"
| "searchMonth prev (c # cs) = (monthHere prev (c # cs) \<or> searchMonth (Some c) cs)"

definition mightBePersonalInfo :: "string \<Rightarrow> bool" where
  "mightBePersonalInfo password =
     list_ex (\<lambda>pattern. pattern password)
       [search [isDigit, isDigit, lit CHR ''/'', isDigit, isDigit, lit CHR ''/'',
                isDigit, isDigit, isDigit, isDigit],
        search [isDigit, isDigit, isDigit, isDigit, lit CHR ''-'', isDigit, isDigit,
                lit CHR ''-'', isDigit, isDigit],
        search [isDigit, isDigit, lit CHR ''-'', isDigit, isDigit, lit CHR ''-'',
                isDigit, isDigit, isDigit, isDigit],
        (\<lambda>s. search [lit CHR ''1'', lit CHR ''9'', isDigit, isDigit] s \<or>
              search [lit CHR ''2'', lit CHR ''0'', isDigit, isDigit] s),
        searchMonth None]"

text \<open>
  \<^verbatim>\<open>hasRepeatedSubstring\<close>: \<open>len\<close> runs from 2 to \<open>\<lfloor>length / 2\<rfloor>\<close> and \<open>i\<close> from 0 to
  \<open>length - 2 * len\<close>, which is not negative for these \<open>len\<close>.
\<close>

definition hasRepeatedSubstring :: "string \<Rightarrow> bool" where
  "hasRepeatedSubstring password =
     list_ex (\<lambda>len.
        list_ex (\<lambda>i.
           (let sub = substring password i (i + len);
                remaining = drop (i + len) password
            in includes_str remaining sub))
          [0..<Suc (length password - len * 2)])
       [2..<Suc (length password div 2)]"

record patterns =
  keyboard :: bool
  dictionary :: bool
  personal :: bool
  repeated :: bool

definition analyzePattern :: "string \<Rightarrow> patterns" where
  "analyzePattern password =
     \<lparr> keyboard = isKeyboardPattern password,
       dictionary = isDictionaryWord password,
       personal = mightBePersonalInfo password,
       repeated = hasRepeatedSubstring password \<rparr>"

subsection \<open>performAdvancedAnalysis\<close>

record recommendation =
  type_r :: string
  text_r :: string

definition getAdvancedRecommendations ::
  "analysis \<Rightarrow> patterns \<Rightarrow> bool \<Rightarrow> bool \<Rightarrow> recommendation list" where
  "getAdvancedRecommendations basic pats isCommon isLeaked =
     (let recommendations = [];
          recommendations = (if isCommon
            then recommendations @ [\<lparr>type_r = ''critical'', text_r = ''Avoid common passwords''\<rparr>]
            else recommendations);
          recommendations = (if isLeaked
            then recommendations @
              [\<lparr>type_r = ''critical'', text_r = ''This pattern appears in data breaches''\<rparr>]
            else recommendations);
          recommendations = (if keyboard pats
            then recommendations @ [\<lparr>type_r = ''warning'', text_r = ''Avoid keyboard patterns''\<rparr>]
            else recommendations);
          recommendations = (if dictionary pats
            then recommendations @ [\<lparr>type_r = ''warning'', text_r = ''Avoid dictionary words''\<rparr>]
            else recommendations);
          recommendations = (if personal pats
            then recommendations @
              [\<lparr>type_r = ''warning'', text_r = ''Avoid personal information like dates''\<rparr>]
            else recommendations);
          recommendations = (if repeated pats
            then recommendations @
              [\<lparr>type_r = ''info'', text_r = ''Avoid repeated character patterns''\<rparr>]
            else recommendations);
          recommendations = (if numLess (entropy basic) 50
            then recommendations @ [\<lparr>type_r = ''info'', text_r = ''Increase password complexity''\<rparr>]
            else recommendations)
      in recommendations)"

record advancedAnalysis = analysis +
  patterns_of :: patterns
  isCommon :: bool
  isLeaked :: bool
  recommendations :: "recommendation list"

text \<open>The spread \<^verbatim>\<open>...basicAnalysis\<close> copies every field of the basic analysis.\<close>

definition performAdvancedAnalysis :: "string \<Rightarrow> advancedAnalysis" where
  "performAdvancedAnalysis password =
     (let basicAnalysis = analyzePassword password;
          pats = analyzePattern password;
          common = isCommonPassword password;
          leaked = checkAgainstLeaks password
      in \<lparr> length_a = length_a basicAnalysis,
           hasUppercase = hasUppercase basicAnalysis,
           hasLowercase = hasLowercase basicAnalysis,
           hasNumbers = hasNumbers basicAnalysis,
           hasSymbols = hasSymbols basicAnalysis,
           hasRepeated = hasRepeated basicAnalysis,
           hasSequential = hasSequential basicAnalysis,
           entropy = entropy basicAnalysis,
           score = score basicAnalysis,
           level = level basicAnalysis,
           patterns_of = pats,
           isCommon = common,
           isLeaked = leaked,
           recommendations =
             getAdvancedRecommendations basicAnalysis pats common leaked \<rparr>)"

subsection \<open>generatePassword\<close>

text \<open>
  The state \<^verbatim>\<open>generatePassword\<close> writes: the value of the password field, the password
  history, the strength display and the toast (its message and its type).
  \<^verbatim>\<open>generatePassword\<close> itself returns nothing; the model returns, beside the new state
  and the advanced random source, the outcome: the password written to the field, or
  the error \<open>NoCharacterClassSelected\<close> when the function shows the error toast
  \<^verbatim>\<open>'Please select at least one character type!'\<close> and returns before any password is
  created. Saving the history to local storage, rendering it and hiding the toast after
  three seconds are left out.
\<close>

datatype error = NoCharacterClassSelected

record app =
  generatedPassword :: string
  passwordHistory :: "string list"
  strengthDisplay :: display
  toast :: "(string \<times> string) option"

definition showToast :: "string \<Rightarrow> string \<Rightarrow> app \<Rightarrow> app" where
  "showToast message type a = a\<lparr> toast := Some (message, type) \<rparr>"

definition addToHistory :: "string \<Rightarrow> app \<Rightarrow> app" where
  "addToHistory password a =
     (if password \<in> set (passwordHistory a) then a
      else (let h = password # passwordHistory a;
                h = (if length h > 10 then take 10 h else h)
            in a\<lparr> passwordHistory := h \<rparr>))"

definition generatePassword ::
  "options \<Rightarrow> rng \<Rightarrow> app \<Rightarrow> (error + string) \<times> app \<times> rng" where
  "generatePassword opts r a =
     (if \<not> validateOptions opts
      then (Inl NoCharacterClassSelected,
            showToast ''Please select at least one character type!'' ''error'' a, r)
      else (let (password, r') = createPassword opts r;
                a = a\<lparr> generatedPassword := password \<rparr>;
                a = addToHistory password a;
                a = a\<lparr> strengthDisplay := checkPasswordStrength password (strengthDisplay a) \<rparr>;
                a = showToast ''Password generated successfully!'' ''success'' a
            in (Inr password, a, r')))"

subsection \<open>The scoring rule and the entropy as the specification words them\<close>

text \<open>
  The summed nominal alphabet size: 26 for lowercase, 26 for uppercase, 10 for digits
  and 32 for symbols, each counted when a character of the class is present. The
  entropy in bits is the length times the binary logarithm of that sum.
\<close>

definition nominalAlphabet :: "string \<Rightarrow> nat" where
  "nominalAlphabet p =
     (if test isLowerAZ p then 26 else 0) + (if test isUpperAZ p then 26 else 0) +
     (if test isDigit p then 10 else 0) + (if test isNonAlnum p then 32 else 0)"

definition entropyBits :: "string \<Rightarrow> real" where
  "entropyBits p = real (length p) * log 2 (real (nominalAlphabet p))"

text \<open>
  The score as a sum: base 0, the bonuses for length, character classes and entropy,
  the penalties for a repeated character, a sequential run and a length below 8, clamped
  to the range from 0 to 100 after all adjustments.
\<close>

definition specScore :: "string \<Rightarrow> int" where
  "specScore p =
     max 0 (min 100
       (0 + (if length p \<ge> 8 then 25 else 0)
          + (if length p \<ge> 12 then 15 else 0)
          + (if length p \<ge> 16 then 10 else 0)
          + (if test isUpperAZ p then 10 else 0)
          + (if test isLowerAZ p then 10 else 0)
          + (if test isDigit p then 10 else 0)
          + (if test isNonAlnum p then 15 else 0)
          + (if entropyBits p > 40 then 10 else 0)
          + (if entropyBits p > 60 then 5 else 0)
          - (if \<not> distinct p then 10 else 0)
          - (if hasSequentialChars p then 15 else 0)
          - (if length p < 8 then 20 else 0)))"

text \<open>The three groups of terms of the score, for the monotonicity proof.\<close>

definition lengthPoints :: "nat \<Rightarrow> int" where
  "lengthPoints n =
     (if n \<ge> 8 then 25 else 0) + (if n \<ge> 12 then 15 else 0) +
     (if n \<ge> 16 then 10 else 0) - (if n < 8 then 20 else 0)"

definition flagPoints :: "analysis \<Rightarrow> int" where
  "flagPoints a =
     (if hasUppercase a then 10 else 0) + (if hasLowercase a then 10 else 0) +
     (if hasNumbers a then 10 else 0) + (if hasSymbols a then 15 else 0) -
     (if hasRepeated a then 10 else 0) - (if hasSequential a then 15 else 0)"

definition entropyPoints :: "jsnumber \<Rightarrow> int" where
  "entropyPoints e =
     (if numGreater e 40 then 10 else 0) + (if numGreater e 60 then 5 else 0)"

subsection \<open>Auxiliary notions for the generator proofs\<close>

text \<open>
  The filtered strings of the selected classes in the order \<^verbatim>\<open>createPassword\<close> visits
  them; \<open>drawnFrom x chars\<close> says that the array element \<open>x\<close> is a character of
  \<open>chars\<close> (and not \<^verbatim>\<open>undefined\<close>); \<open>built sel b\<close> is the invariant of the four
  blocks: \<^verbatim>\<open>charset\<close> is the concatenation of the classes visited so far and
  \<^verbatim>\<open>guaranteedChars\<close> holds one character of each, in order.
\<close>


definition selectedClasses :: "options \<Rightarrow> string list" where
  "selectedClasses opts =
     (if includeUppercase opts then [upperChars opts] else []) @
     (if includeLowercase opts then [lowerChars opts] else []) @
     (if includeNumbers opts then [numberChars opts] else []) @
     (if includeSymbols opts then [symbolChars opts] else [])"

definition drawnFrom :: "char option \<Rightarrow> string \<Rightarrow> bool" where
  "drawnFrom x chars \<longleftrightarrow> (\<exists>c. x = Some c \<and> c \<in> set chars)"

definition built :: "string list \<Rightarrow> build \<Rightarrow> bool" where
  "built sel b \<longleftrightarrow> (case b of (charset, guaranteedChars, r) \<Rightarrow>
      charset = concat sel \<and> list_all2 drawnFrom guaranteedChars sel)"


text \<open>
  The two arrays \<^verbatim>\<open>createPassword\<close> concatenates before it shuffles:
  \<^verbatim>\<open>guaranteedChars\<close> after the four blocks, and \<^verbatim>\<open>randomChars\<close> after the loop.
\<close>

definition guaranteedOf :: "options \<Rightarrow> rng \<Rightarrow> char option list" where
  "guaranteedOf opts r = (case buildClasses opts r of (charset, guaranteedChars, r1) \<Rightarrow> guaranteedChars)"

definition randomOf :: "options \<Rightarrow> rng \<Rightarrow> char option list" where
  "randomOf opts r = (case buildClasses opts r of (charset, guaranteedChars, r1) \<Rightarrow>
     fst (randomLoop (nat (length_opt opts - int (length guaranteedChars))) charset r1))"

text \<open>A random source that returns the same word at every draw, for concrete runs.\<close>

definition constSource :: "32 word \<Rightarrow> rng" where
  "constSource w = (\<lambda>n. w)"

text \<open>A display with nothing shown, for concrete runs.\<close>

definition blankDisplay :: display where
  "blankDisplay = \<lparr> progressWidth = 0, progressClasses = [''strength-progress''],
     strengthLabel = [], strengthScore = None, criteriaMet = (\<lambda>id. False),
     suggestionsList = [], suggestionsDisplay = ''none'' \<rparr>"

definition blankApp :: app where
  "blankApp = \<lparr> generatedPassword = [], passwordHistory = [],
     strengthDisplay = blankDisplay, toast = None \<rparr>"

section \<open>Proofs\<close>

subsection \<open>Generator: helper lemmas\<close>

lemma upper_filtered: "removeChars (uppercase charSets) (similar charSets) = ''ABCDEFGHJKLMNPQRSTUVWXYZ''"
  by (simp add: removeChars_def charSets_def)
lemma lower_filtered: "removeChars (lowercase charSets) (similar charSets) = ''abcdefghijkmnpqrstuvwxyz''"
  by (simp add: removeChars_def charSets_def)
lemma number_filtered: "removeChars (numbers charSets) (similar charSets) = ''23456789''"
  by (simp add: removeChars_def charSets_def)
lemma symbol_filtered: "removeChars (symbols charSets) (ambiguous charSets) = ''!@#$%^&*_+-=|:?''"
  by (simp add: removeChars_def charSets_def)

lemma upperChars_nonempty: "upperChars opts \<noteq> []"
  by (simp add: upperChars_def upper_filtered) (simp add: charSets_def)
lemma lowerChars_nonempty: "lowerChars opts \<noteq> []"
  by (simp add: lowerChars_def lower_filtered) (simp add: charSets_def)
lemma numberChars_nonempty: "numberChars opts \<noteq> []"
  by (simp add: numberChars_def number_filtered) (simp add: charSets_def)
lemma symbolChars_nonempty: "symbolChars opts \<noteq> []"
  by (simp add: symbolChars_def symbol_filtered) (simp add: charSets_def)

lemma selectedClasses_nonempty: "chars \<in> set (selectedClasses opts) \<Longrightarrow> chars \<noteq> []"
  using upperChars_nonempty [of opts] lowerChars_nonempty [of opts]
    numberChars_nonempty [of opts] symbolChars_nonempty [of opts]
  by (auto simp: selectedClasses_def split: if_splits)

lemma length_selectedClasses: "length (selectedClasses opts) = numSelectedClasses opts"
  by (simp add: selectedClasses_def numSelectedClasses_def)

lemma getRandomChar_drawn: "chars \<noteq> [] \<Longrightarrow> drawnFrom (fst (getRandomChar chars r)) chars"
  by (simp add: getRandomChar_def drawnFrom_def split_beta)

lemma built_pushClass:
  assumes "built sel b" and "chars \<noteq> []"
  shows "built (sel @ [chars]) (pushClass chars b)"
proof -
  obtain cs g r where b: "b = (cs, g, r)" by (cases b)
  from assms(1) b have cs: "cs = concat sel" and g: "list_all2 drawnFrom g sel"
    by (simp_all add: built_def)
  have d: "drawnFrom (fst (getRandomChar chars r)) chars"
    using assms(2) by (rule getRandomChar_drawn)
  have "list_all2 drawnFrom (g @ [fst (getRandomChar chars r)]) (sel @ [chars])"
    using g d by (simp add: list_all2_appendI)
  then show ?thesis
    by (simp add: built_def pushClass_def b cs split_beta)
qed

lemma built_pushIf:
  assumes "built sel b" and "chars \<noteq> []"
  shows "built (sel @ (if f then [chars] else [])) (if f then pushClass chars b else b)"
  using assms built_pushClass by simp

lemma built_buildClasses: "built (selectedClasses opts) (buildClasses opts r)"
proof -
  have b0: "built [] ([], [], r)" by (simp add: built_def)
  note b1 = built_pushIf [OF b0 upperChars_nonempty, where f = "includeUppercase opts" and opts1 = opts]
  note b2 = built_pushIf [OF b1 lowerChars_nonempty, where f = "includeLowercase opts" and opts1 = opts]
  note b3 = built_pushIf [OF b2 numberChars_nonempty, where f = "includeNumbers opts" and opts1 = opts]
  note b4 = built_pushIf [OF b3 symbolChars_nonempty, where f = "includeSymbols opts" and opts1 = opts]
  from b4 show ?thesis
    by (simp only: selectedClasses_def buildClasses_def Let_def append_Nil append_assoc)
qed

lemma randomLoop_length: "length (fst (randomLoop n charset r)) = n"
  by (induction n arbitrary: r) (simp_all add: split_beta)

lemma randomLoop_drawn:
  "charset \<noteq> [] \<Longrightarrow> x \<in> set (fst (randomLoop n charset r)) \<Longrightarrow> drawnFrom x charset"
proof (induction n arbitrary: r)
  case 0
  then show ?case by simp
next
  case (Suc n)
  from Suc.prems(2) have "x = fst (getRandomChar charset r) \<or>
      x \<in> set (fst (randomLoop n charset (snd (getRandomChar charset r))))"
    by (simp add: split_beta)
  then show ?case
    using Suc.IH [OF Suc.prems(1)] getRandomChar_drawn [OF Suc.prems(1)] by blast
qed

lemma shuffleLoop_mset: "k < length xs \<Longrightarrow> mset (fst (shuffleLoop k xs r)) = mset xs"
proof (induction k arbitrary: xs r)
  case 0
  then show ?case by simp
next
  case (Suc k)
  obtain w r' where d: "getRandomValues r = (w, r')" by (cases "getRandomValues r")
  let ?j = "unat w mod (Suc k + 1)"
  have j: "?j < length xs"
  proof -
    have "?j < Suc k + 1" by (rule mod_less_divisor) simp
    with Suc.prems show ?thesis by linarith
  qed
  let ?ys = "xs[Suc k := xs ! ?j, ?j := xs ! Suc k]"
  have m: "mset ?ys = mset xs" using mset_swap [OF j Suc.prems] .
  have "k < length ?ys" using Suc.prems by simp
  from Suc.IH [OF this, of r'] m show ?case by (simp add: d Let_def)
qed

lemma shuffleArray_mset: "mset (fst (shuffleArray xs r)) = mset xs"
proof (cases xs)
  case Nil then show ?thesis by (simp add: shuffleArray_def)
next
  case (Cons a list)
  then have "length xs - 1 < length xs" by simp
  then show ?thesis unfolding shuffleArray_def by (rule shuffleLoop_mset)
qed

lemma join_all_Some:
  "\<forall>x \<in> set xs. x \<noteq> None \<Longrightarrow> mset (join xs) = image_mset the (mset xs)"
  by (induction xs) (auto simp: join_def)

lemma guaranteedOf_drawn: "list_all2 drawnFrom (guaranteedOf opts r) (selectedClasses opts)"
  using built_buildClasses [of opts r]
  by (simp add: built_def guaranteedOf_def split: prod.splits)

lemma length_guaranteedOf: "length (guaranteedOf opts r) = numSelectedClasses opts"
  using list_all2_lengthD [OF guaranteedOf_drawn, of opts r]
  by (simp add: length_selectedClasses)

lemma length_randomOf:
  "length (randomOf opts r) = nat (length_opt opts - int (numSelectedClasses opts))"
  using length_guaranteedOf [of opts r]
  by (simp add: randomOf_def guaranteedOf_def randomLoop_length split: prod.splits)

lemma charset_built: "fst (buildClasses opts r) = concat (selectedClasses opts)"
  using built_buildClasses [of opts r]
  by (simp add: built_def split: prod.splits)

lemma charset_nonempty:
  assumes "validateOptions opts"
  shows "fst (buildClasses opts r) \<noteq> []"
proof -
  from assms obtain chars where c: "chars \<in> set (selectedClasses opts)"
    by (auto simp: validateOptions_def selectedClasses_def)
  from selectedClasses_nonempty [OF c] c show ?thesis
    by (auto simp: charset_built)
qed

lemma guaranteedOf_in_charset:
  assumes "x \<in> set (guaranteedOf opts r)"
  shows "drawnFrom x (concat (selectedClasses opts))"
proof -
  from assms obtain i where i: "i < length (guaranteedOf opts r)" and x: "x = guaranteedOf opts r ! i"
    by (auto simp: in_set_conv_nth)
  from list_all2_nthD [OF guaranteedOf_drawn i] x
  have d: "drawnFrom x (selectedClasses opts ! i)" by simp
  from i have "selectedClasses opts ! i \<in> set (selectedClasses opts)"
    by (simp add: length_guaranteedOf length_selectedClasses)
  with d show ?thesis by (auto simp: drawnFrom_def)
qed

lemma randomOf_in_charset:
  assumes "validateOptions opts" and "x \<in> set (randomOf opts r)"
  shows "drawnFrom x (concat (selectedClasses opts))"
proof -
  obtain cs g r1 where b: "buildClasses opts r = (cs, g, r1)" by (cases "buildClasses opts r")
  from charset_nonempty [OF assms(1), of r] b have ne: "cs \<noteq> []" by simp
  from assms(2) b have "x \<in> set (fst (randomLoop (nat (length_opt opts - int (length g))) cs r1))"
    by (simp add: randomOf_def)
  from randomLoop_drawn [OF ne this] charset_built [of opts r] b show ?thesis by simp
qed

lemma allChars_in_charset:
  assumes "validateOptions opts" and "x \<in> set (guaranteedOf opts r @ randomOf opts r)"
  shows "drawnFrom x (concat (selectedClasses opts))"
  using assms guaranteedOf_in_charset randomOf_in_charset by auto

lemma createPassword_shuffled:
  "\<exists>r2. fst (createPassword opts r) =
     join (fst (shuffleArray (guaranteedOf opts r @ randomOf opts r) r2))"
proof -
  obtain cs g r1 where b: "buildClasses opts r = (cs, g, r1)" by (cases "buildClasses opts r")
  obtain rs r2 where l: "randomLoop (nat (length_opt opts - int (length g))) cs r1 = (rs, r2)"
    by (cases "randomLoop (nat (length_opt opts - int (length g))) cs r1")
  have "fst (createPassword opts r) = join (fst (shuffleArray (g @ rs) r2))"
    by (simp add: createPassword_def b l Let_def split_beta)
  moreover have "guaranteedOf opts r = g" by (simp add: guaranteedOf_def b)
  moreover have "randomOf opts r = rs" by (simp add: randomOf_def b l)
  ultimately show ?thesis by auto
qed

lemma createPassword_mset:
  assumes "\<forall>x \<in> set (guaranteedOf opts r @ randomOf opts r). x \<noteq> None"
  shows "mset (fst (createPassword opts r)) =
     image_mset the (mset (guaranteedOf opts r @ randomOf opts r))"
proof -
  obtain r2 where p: "fst (createPassword opts r) =
     join (fst (shuffleArray (guaranteedOf opts r @ randomOf opts r) r2))"
    using createPassword_shuffled by blast
  let ?xs = "guaranteedOf opts r @ randomOf opts r"
  have m: "mset (fst (shuffleArray ?xs r2)) = mset ?xs" by (rule shuffleArray_mset)
  then have "set (fst (shuffleArray ?xs r2)) = set ?xs" by (rule mset_eq_setD)
  with assms have "\<forall>x \<in> set (fst (shuffleArray ?xs r2)). x \<noteq> None" by simp
  from join_all_Some [OF this] m p show ?thesis by simp
qed

lemma createPassword_mset_valid:
  assumes "validateOptions opts"
  shows "mset (fst (createPassword opts r)) =
     image_mset the (mset (guaranteedOf opts r @ randomOf opts r))"
proof (rule createPassword_mset, rule ballI)
  fix x assume "x \<in> set (guaranteedOf opts r @ randomOf opts r)"
  from allChars_in_charset [OF assms this] show "x \<noteq> None" by (auto simp: drawnFrom_def)
qed

lemma createPassword_length_valid:
  assumes "validateOptions opts"
  shows "length (fst (createPassword opts r)) =
     numSelectedClasses opts + nat (length_opt opts - int (numSelectedClasses opts))"
proof -
  have "size (mset (fst (createPassword opts r))) =
      size (image_mset the (mset (guaranteedOf opts r @ randomOf opts r)))"
    by (simp only: createPassword_mset_valid [OF assms])
  then show ?thesis by (simp add: length_guaranteedOf length_randomOf)
qed

lemma createPassword_chars:
  assumes "validateOptions opts" and "c \<in> set (fst (createPassword opts r))"
  shows "c \<in> set (concat (selectedClasses opts))"
proof -
  from assms(2) have "c \<in># mset (fst (createPassword opts r))" by simp
  then have "c \<in># image_mset the (mset (guaranteedOf opts r @ randomOf opts r))"
    by (simp only: createPassword_mset_valid [OF assms(1)])
  then obtain x where x: "x \<in> set (guaranteedOf opts r @ randomOf opts r)" and c: "c = the x"
    by auto
  from allChars_in_charset [OF assms(1) x] c show ?thesis by (auto simp: drawnFrom_def)
qed

lemma createPassword_has_class:
  assumes "validateOptions opts" and "chars \<in> set (selectedClasses opts)"
  shows "\<exists>c \<in> set (fst (createPassword opts r)). c \<in> set chars"
proof -
  from assms(2) obtain i where i: "i < length (selectedClasses opts)"
    and ch: "chars = selectedClasses opts ! i" by (auto simp: in_set_conv_nth)
  have il: "i < length (guaranteedOf opts r)"
    using i by (simp add: length_guaranteedOf length_selectedClasses)
  from list_all2_nthD [OF guaranteedOf_drawn il] ch
  obtain c where c: "guaranteedOf opts r ! i = Some c" and cin: "c \<in> set chars"
    by (auto simp: drawnFrom_def)
  from il c have "Some c \<in> set (guaranteedOf opts r @ randomOf opts r)"
    by (metis nth_mem Un_iff set_append)
  then have "the (Some c) \<in># image_mset the (mset (guaranteedOf opts r @ randomOf opts r))"
    by (metis image_eqI in_image_mset set_mset_mset)
  then have "c \<in># mset (fst (createPassword opts r))"
    by (simp only: createPassword_mset_valid [OF assms(1)] option.sel)
  with cin show ?thesis by auto
qed

subsection \<open>Generator: length of the password\<close>

text \<open>
  Claim C1. For valid options (at least one \<^verbatim>\<open>include*\<close> flag true) whose length is at
  least the number of selected classes, and for every sequence of random values,
  \<^verbatim>\<open>createPassword\<close> returns a password of exactly \<^verbatim>\<open>options.length\<close> characters:
  one guaranteed character per selected class and
  \<open>max 0 (length - numSelectedClasses)\<close> characters drawn from the whole character set.
\<close>

theorem createPassword_length:
  assumes "validateOptions opts"
    and "int (numSelectedClasses opts) \<le> length_opt opts"
  shows "int (length (fst (createPassword opts r))) = length_opt opts \<and>
         length (guaranteedOf opts r) = numSelectedClasses opts \<and>
         int (length (randomOf opts r)) = max 0 (length_opt opts - int (numSelectedClasses opts))"
  using assms(2)
  by (simp add: createPassword_length_valid [OF assms(1)] length_guaranteedOf length_randomOf)

text \<open>A run of C1: three classes, length 12, similar characters excluded.\<close>

theorem createPassword_length_witness:
  "validateOptions \<lparr>length_opt = 12, includeUppercase = True, includeLowercase = True,
       includeNumbers = True, includeSymbols = False, excludeSimilar = True,
       excludeAmbiguous = False\<rparr> \<and>
   int (numSelectedClasses \<lparr>length_opt = 12, includeUppercase = True, includeLowercase = True,
       includeNumbers = True, includeSymbols = False, excludeSimilar = True,
       excludeAmbiguous = False\<rparr>) \<le> 12 \<and>
   int (length (fst (createPassword \<lparr>length_opt = 12, includeUppercase = True,
       includeLowercase = True, includeNumbers = True, includeSymbols = False,
       excludeSimilar = True, excludeAmbiguous = False\<rparr> (constSource 7)))) = 12"
  using createPassword_length [of "\<lparr>length_opt = 12, includeUppercase = True,
       includeLowercase = True, includeNumbers = True, includeSymbols = False,
       excludeSimilar = True, excludeAmbiguous = False\<rparr>" "constSource 7"]
  by (simp add: validateOptions_def numSelectedClasses_def)

text \<open>
  Claim C2 as stated says that a length below the number of selected classes truncates
  the guaranteed characters, so that the password has \<^verbatim>\<open>options.length\<close> characters.
  \<^verbatim>\<open>createPassword\<close> has no truncation: \<^verbatim>\<open>remainingLength\<close> is negative, the loop
  draws nothing, and all guaranteed characters are shuffled and joined. With length 1,
  uppercase and lowercase selected and every random word 0, the password is \<open>aA\<close>, of
  two characters.
\<close>

theorem createPassword_truncation_counterexample:
  "validateOptions \<lparr>length_opt = 1, includeUppercase = True, includeLowercase = True,
       includeNumbers = False, includeSymbols = False, excludeSimilar = False,
       excludeAmbiguous = False\<rparr> \<and>
   length_opt \<lparr>length_opt = 1, includeUppercase = True, includeLowercase = True,
       includeNumbers = False, includeSymbols = False, excludeSimilar = False,
       excludeAmbiguous = False\<rparr> <
   int (numSelectedClasses \<lparr>length_opt = 1, includeUppercase = True, includeLowercase = True,
       includeNumbers = False, includeSymbols = False, excludeSimilar = False,
       excludeAmbiguous = False\<rparr>) \<and>
   fst (createPassword \<lparr>length_opt = 1, includeUppercase = True, includeLowercase = True,
       includeNumbers = False, includeSymbols = False, excludeSimilar = False,
       excludeAmbiguous = False\<rparr> (constSource 0)) = ''aA'' \<and>
   int (length (fst (createPassword \<lparr>length_opt = 1, includeUppercase = True,
       includeLowercase = True, includeNumbers = False, includeSymbols = False,
       excludeSimilar = False, excludeAmbiguous = False\<rparr> (constSource 0)))) \<noteq> 1"
  by (simp add: validateOptions_def numSelectedClasses_def createPassword_def buildClasses_def
      pushClass_def getRandomChar_def getRandomValues_def constSource_def upperChars_def
      lowerChars_def charSets_def shuffleArray_def join_def Let_def)

text \<open>
  Claim C2, amended. When \<^verbatim>\<open>options.length\<close> is smaller than the number of selected
  classes (options valid), \<^verbatim>\<open>createPassword\<close> draws no additional character and keeps
  every guaranteed character: the password has exactly \<open>numSelectedClasses\<close>
  characters, more than requested.
\<close>

theorem createPassword_short_length:
  assumes "validateOptions opts"
    and "length_opt opts < int (numSelectedClasses opts)"
  shows "length (fst (createPassword opts r)) = numSelectedClasses opts \<and>
         randomOf opts r = [] \<and>
         length_opt opts < int (length (fst (createPassword opts r)))"
proof -
  have l: "length (fst (createPassword opts r)) = numSelectedClasses opts"
    using assms(2) by (simp add: createPassword_length_valid [OF assms(1)])
  have "length (randomOf opts r) = 0"
    using assms(2) by (simp add: length_randomOf)
  with l assms(2) show ?thesis by simp
qed

text \<open>A run of the amended C2: four classes, length 2.\<close>

theorem createPassword_short_length_witness:
  "validateOptions \<lparr>length_opt = 2, includeUppercase = True, includeLowercase = True,
       includeNumbers = True, includeSymbols = True, excludeSimilar = False,
       excludeAmbiguous = False\<rparr> \<and>
   (2::int) < int (numSelectedClasses \<lparr>length_opt = 2, includeUppercase = True,
       includeLowercase = True, includeNumbers = True, includeSymbols = True,
       excludeSimilar = False, excludeAmbiguous = False\<rparr>) \<and>
   length (fst (createPassword \<lparr>length_opt = 2, includeUppercase = True,
       includeLowercase = True, includeNumbers = True, includeSymbols = True,
       excludeSimilar = False, excludeAmbiguous = False\<rparr> (constSource 3))) = 4"
  using createPassword_short_length [of "\<lparr>length_opt = 2, includeUppercase = True,
       includeLowercase = True, includeNumbers = True, includeSymbols = True,
       excludeSimilar = False, excludeAmbiguous = False\<rparr>" "constSource 3"]
  by (simp add: validateOptions_def numSelectedClasses_def)

subsection \<open>Generator: characters of the password\<close>

lemma no_similar_upper: "excludeSimilar opts \<Longrightarrow> c \<in> set (upperChars opts) \<Longrightarrow> c \<notin> set (similar charSets)"
  by (simp add: upperChars_def removeChars_def)
lemma no_similar_lower: "excludeSimilar opts \<Longrightarrow> c \<in> set (lowerChars opts) \<Longrightarrow> c \<notin> set (similar charSets)"
  by (simp add: lowerChars_def removeChars_def)
lemma no_similar_number: "excludeSimilar opts \<Longrightarrow> c \<in> set (numberChars opts) \<Longrightarrow> c \<notin> set (similar charSets)"
  by (simp add: numberChars_def removeChars_def)
lemma symbolChars_subset: "set (symbolChars opts) \<subseteq> set (symbols charSets)"
  by (auto simp: symbolChars_def removeChars_def)
lemma symbols_not_similar: "c \<in> set (symbols charSets) \<Longrightarrow> c \<notin> set (similar charSets)"
  by (auto simp: charSets_def)
lemma no_similar_symbol: "c \<in> set (symbolChars opts) \<Longrightarrow> c \<notin> set (similar charSets)"
  using symbolChars_subset symbols_not_similar by blast

lemma no_similar_selected:
  assumes "excludeSimilar opts" and "chars \<in> set (selectedClasses opts)" and "c \<in> set chars"
  shows "c \<notin> set (similar charSets)"
  using assms no_similar_upper no_similar_lower no_similar_number no_similar_symbol
  by (auto simp: selectedClasses_def split: if_splits)

text \<open>
  Claim C3. For valid options with length at least the number of selected classes, and
  for every sequence of random values, the password holds at least one character of
  each selected class, the class being the string left after the exclusion filter
  (\<open>upperChars\<close>, \<open>lowerChars\<close>, \<open>numberChars\<close>, \<open>symbolChars\<close>).
\<close>

theorem createPassword_contains_each_class:
  assumes "validateOptions opts"
    and "int (numSelectedClasses opts) \<le> length_opt opts"
  shows "(includeUppercase opts \<longrightarrow>
            (\<exists>c \<in> set (fst (createPassword opts r)). c \<in> set (upperChars opts))) \<and>
         (includeLowercase opts \<longrightarrow>
            (\<exists>c \<in> set (fst (createPassword opts r)). c \<in> set (lowerChars opts))) \<and>
         (includeNumbers opts \<longrightarrow>
            (\<exists>c \<in> set (fst (createPassword opts r)). c \<in> set (numberChars opts))) \<and>
         (includeSymbols opts \<longrightarrow>
            (\<exists>c \<in> set (fst (createPassword opts r)). c \<in> set (symbolChars opts)))"
proof (intro conjI impI)
  assume "includeUppercase opts"
  then have "upperChars opts \<in> set (selectedClasses opts)" by (simp add: selectedClasses_def)
  from createPassword_has_class [OF assms(1) this]
  show "\<exists>c \<in> set (fst (createPassword opts r)). c \<in> set (upperChars opts)" .
next
  assume "includeLowercase opts"
  then have "lowerChars opts \<in> set (selectedClasses opts)" by (simp add: selectedClasses_def)
  from createPassword_has_class [OF assms(1) this]
  show "\<exists>c \<in> set (fst (createPassword opts r)). c \<in> set (lowerChars opts)" .
next
  assume "includeNumbers opts"
  then have "numberChars opts \<in> set (selectedClasses opts)" by (simp add: selectedClasses_def)
  from createPassword_has_class [OF assms(1) this]
  show "\<exists>c \<in> set (fst (createPassword opts r)). c \<in> set (numberChars opts)" .
next
  assume "includeSymbols opts"
  then have "symbolChars opts \<in> set (selectedClasses opts)" by (simp add: selectedClasses_def)
  from createPassword_has_class [OF assms(1) this]
  show "\<exists>c \<in> set (fst (createPassword opts r)). c \<in> set (symbolChars opts)" .
qed

text \<open>A run of C3: uppercase, numbers and symbols, both exclusions on.\<close>

theorem createPassword_contains_each_class_witness:
  "validateOptions \<lparr>length_opt = 8, includeUppercase = True, includeLowercase = False,
       includeNumbers = True, includeSymbols = True, excludeSimilar = True,
       excludeAmbiguous = True\<rparr> \<and>
   int (numSelectedClasses \<lparr>length_opt = 8, includeUppercase = True, includeLowercase = False,
       includeNumbers = True, includeSymbols = True, excludeSimilar = True,
       excludeAmbiguous = True\<rparr>) \<le> 8 \<and>
   (\<exists>c \<in> set (fst (createPassword \<lparr>length_opt = 8, includeUppercase = True,
       includeLowercase = False, includeNumbers = True, includeSymbols = True,
       excludeSimilar = True, excludeAmbiguous = True\<rparr> (constSource 9))).
       c \<in> set ''ABCDEFGHJKLMNPQRSTUVWXYZ'') \<and>
   (\<exists>c \<in> set (fst (createPassword \<lparr>length_opt = 8, includeUppercase = True,
       includeLowercase = False, includeNumbers = True, includeSymbols = True,
       excludeSimilar = True, excludeAmbiguous = True\<rparr> (constSource 9))).
       c \<in> set ''23456789'') \<and>
   (\<exists>c \<in> set (fst (createPassword \<lparr>length_opt = 8, includeUppercase = True,
       includeLowercase = False, includeNumbers = True, includeSymbols = True,
       excludeSimilar = True, excludeAmbiguous = True\<rparr> (constSource 9))).
       c \<in> set ''!@#$%^&*_+-=|:?'')"
  using createPassword_contains_each_class [of "\<lparr>length_opt = 8, includeUppercase = True,
       includeLowercase = False, includeNumbers = True, includeSymbols = True,
       excludeSimilar = True, excludeAmbiguous = True\<rparr>" "constSource 9"]
  by (simp add: validateOptions_def numSelectedClasses_def upperChars_def numberChars_def
      symbolChars_def upper_filtered number_filtered symbol_filtered)

text \<open>
  Claim C4. For valid options with \<^verbatim>\<open>excludeSimilar\<close> true, no character of the similar
  set \<open>0Oo1lI\<close> stands at any position of the password, whatever classes are included
  and whatever the random values are. (The symbol class is not filtered by the similar
  set; it holds none of its characters.)
\<close>

theorem createPassword_excludes_similar:
  assumes "validateOptions opts" and "excludeSimilar opts"
  shows "\<forall>c \<in> set (fst (createPassword opts r)). c \<notin> set (similar charSets)"
proof
  fix c assume "c \<in> set (fst (createPassword opts r))"
  from createPassword_chars [OF assms(1) this]
  obtain chars where "chars \<in> set (selectedClasses opts)" and "c \<in> set chars" by auto
  from no_similar_selected [OF assms(2) this] show "c \<notin> set (similar charSets)" .
qed

text \<open>A run of C4: all four classes, similar characters excluded.\<close>

theorem createPassword_excludes_similar_witness:
  "validateOptions \<lparr>length_opt = 16, includeUppercase = True, includeLowercase = True,
       includeNumbers = True, includeSymbols = True, excludeSimilar = True,
       excludeAmbiguous = False\<rparr> \<and>
   excludeSimilar \<lparr>length_opt = 16, includeUppercase = True, includeLowercase = True,
       includeNumbers = True, includeSymbols = True, excludeSimilar = True,
       excludeAmbiguous = False\<rparr> \<and>
   CHR ''O'' \<notin> set (fst (createPassword \<lparr>length_opt = 16, includeUppercase = True,
       includeLowercase = True, includeNumbers = True, includeSymbols = True,
       excludeSimilar = True, excludeAmbiguous = False\<rparr> (constSource 14))) \<and>
   CHR ''1'' \<notin> set (fst (createPassword \<lparr>length_opt = 16, includeUppercase = True,
       includeLowercase = True, includeNumbers = True, includeSymbols = True,
       excludeSimilar = True, excludeAmbiguous = False\<rparr> (constSource 14)))"
  using createPassword_excludes_similar [of "\<lparr>length_opt = 16, includeUppercase = True,
       includeLowercase = True, includeNumbers = True, includeSymbols = True,
       excludeSimilar = True, excludeAmbiguous = False\<rparr>" "constSource 14"]
  by (auto simp: validateOptions_def charSets_def)

subsection \<open>Generator: validation\<close>

text \<open>
  Claim C7. When all four \<^verbatim>\<open>include*\<close> flags are false, \<^verbatim>\<open>generatePassword\<close> produces
  no password and ends with the error \<open>NoCharacterClassSelected\<close>: it changes nothing
  but the toast (the password field and the history stay as they were, no random value
  is drawn). \<^verbatim>\<open>validateOptions\<close> rejects exactly these options; for every other option
  record the password of \<^verbatim>\<open>createPassword\<close> is produced and written to the field.
\<close>

theorem generatePassword_rejects_iff:
  "(\<not> validateOptions opts \<longleftrightarrow>
      \<not> includeUppercase opts \<and> \<not> includeLowercase opts \<and>
      \<not> includeNumbers opts \<and> \<not> includeSymbols opts) \<and>
   (fst (generatePassword opts r a) = Inl NoCharacterClassSelected \<longleftrightarrow>
      \<not> includeUppercase opts \<and> \<not> includeLowercase opts \<and>
      \<not> includeNumbers opts \<and> \<not> includeSymbols opts) \<and>
   (\<not> includeUppercase opts \<and> \<not> includeLowercase opts \<and>
    \<not> includeNumbers opts \<and> \<not> includeSymbols opts \<longrightarrow>
      generatePassword opts r a =
        (Inl NoCharacterClassSelected,
         a\<lparr> toast := Some (''Please select at least one character type!'', ''error'') \<rparr>,
         r)) \<and>
   (validateOptions opts \<longrightarrow>
      fst (generatePassword opts r a) = Inr (fst (createPassword opts r)) \<and>
      generatedPassword (fst (snd (generatePassword opts r a))) = fst (createPassword opts r))"
proof -
  have v: "\<not> validateOptions opts \<longleftrightarrow>
      \<not> includeUppercase opts \<and> \<not> includeLowercase opts \<and>
      \<not> includeNumbers opts \<and> \<not> includeSymbols opts"
    by (simp add: validateOptions_def)
  have rejected: "generatePassword opts r a =
        (Inl NoCharacterClassSelected,
         a\<lparr> toast := Some (''Please select at least one character type!'', ''error'') \<rparr>,
         r)"
    if "\<not> validateOptions opts"
    using that by (simp add: generatePassword_def showToast_def)
  have accepted: "fst (generatePassword opts r a) = Inr (fst (createPassword opts r)) \<and>
      generatedPassword (fst (snd (generatePassword opts r a))) = fst (createPassword opts r)"
    if "validateOptions opts"
    using that
    by (simp add: generatePassword_def showToast_def addToHistory_def Let_def split_beta)
  have "fst (generatePassword opts r a) = Inl NoCharacterClassSelected \<longleftrightarrow>
      \<not> validateOptions opts"
    using rejected accepted by (cases "validateOptions opts") simp_all
  with v rejected accepted show ?thesis by simp
qed

text \<open>Runs of C7 on a blank page: no class selected, and numbers alone selected.\<close>

theorem generatePassword_rejects_iff_witness:
  "generatePassword \<lparr>length_opt = 12, includeUppercase = False, includeLowercase = False,
       includeNumbers = False, includeSymbols = False, excludeSimilar = True,
       excludeAmbiguous = True\<rparr> (constSource 1) blankApp =
     (Inl NoCharacterClassSelected,
      blankApp\<lparr> toast := Some (''Please select at least one character type!'', ''error'') \<rparr>,
      constSource 1) \<and>
   validateOptions \<lparr>length_opt = 12, includeUppercase = False, includeLowercase = False,
       includeNumbers = True, includeSymbols = False, excludeSimilar = False,
       excludeAmbiguous = False\<rparr> \<and>
   fst (generatePassword \<lparr>length_opt = 12, includeUppercase = False, includeLowercase = False,
       includeNumbers = True, includeSymbols = False, excludeSimilar = False,
       excludeAmbiguous = False\<rparr> (constSource 1) blankApp) \<noteq> Inl NoCharacterClassSelected"
  using generatePassword_rejects_iff [of "\<lparr>length_opt = 12, includeUppercase = False,
       includeLowercase = False, includeNumbers = False, includeSymbols = False,
       excludeSimilar = True, excludeAmbiguous = True\<rparr>" "constSource 1" blankApp]
    generatePassword_rejects_iff [of "\<lparr>length_opt = 12, includeUppercase = False,
       includeLowercase = False, includeNumbers = True, includeSymbols = False,
       excludeSimilar = False, excludeAmbiguous = False\<rparr>" "constSource 1" blankApp]
  by (simp add: validateOptions_def)

subsection \<open>Generator: the shuffle\<close>

text \<open>
  Claim C10. For every input array (non-empty or empty) and every sequence of random
  values, \<^verbatim>\<open>shuffleArray\<close> returns an array with the same elements in the same
  multiplicities: a permutation of its input, of the same length.
\<close>

theorem shuffleArray_permutation:
  "mset (fst (shuffleArray array r)) = mset array \<and>
   length (fst (shuffleArray array r)) = length array"
proof -
  have m: "mset (fst (shuffleArray array r)) = mset array" by (rule shuffleArray_mset)
  then have "length (fst (shuffleArray array r)) = length array" by (rule mset_eq_length)
  with m show ?thesis by simp
qed

text \<open>A run of C10 on an array with repeated characters.\<close>

theorem shuffleArray_permutation_witness:
  "mset (fst (shuffleArray ''Ab3!Ab'' (constSource 4))) = mset ''Ab3!Ab'' \<and>
   length (fst (shuffleArray ''Ab3!Ab'' (constSource 4))) = 6"
  using shuffleArray_permutation [of "''Ab3!Ab''" "constSource 4"]
  by simp

subsection \<open>Analyser: helper lemmas\<close>

lemma if_plus: "(if c then s + k else s) = s + (if c then k else (0::int))" by simp
lemma if_minus: "(if c then s - k else s) = s - (if c then k else (0::int))" by simp

lemma sum_regroup:
  "0 + a + b + c + d + e + f + g + h + i - j - k - l =
     (a + b + c - l) + (d + e + f + g - j - k) + (h + (i::int))"
  by simp

lemma calculateStrengthScore_sum:
  "calculateStrengthScore a =
     max 0 (min 100 (lengthPoints (length_a a) + flagPoints a + entropyPoints (entropy a)))"
proof -
  have "calculateStrengthScore a = max 0 (min 100
      (0 + (if length_a a \<ge> 8 then 25 else 0)
         + (if length_a a \<ge> 12 then 15 else 0)
         + (if length_a a \<ge> 16 then 10 else 0)
         + (if hasUppercase a then 10 else 0)
         + (if hasLowercase a then 10 else 0)
         + (if hasNumbers a then 10 else 0)
         + (if hasSymbols a then 15 else 0)
         + (if numGreater (entropy a) 40 then 10 else 0)
         + (if numGreater (entropy a) 60 then 5 else 0)
         - (if hasRepeated a then 10 else 0)
         - (if hasSequential a then 15 else 0)
         - (if length_a a < 8 then 20 else 0)))"
    unfolding calculateStrengthScore_def by (simp only: Let_def if_plus if_minus)
  also have "\<dots> = max 0 (min 100 (lengthPoints (length_a a) + flagPoints a + entropyPoints (entropy a)))"
    unfolding lengthPoints_def flagPoints_def entropyPoints_def by (simp only: sum_regroup)
  finally show ?thesis .
qed


lemma char_in_some_class: "isLowerAZ c \<or> isUpperAZ c \<or> isDigit c \<or> isNonAlnum c"
  by (auto simp: isNonAlnum_def)

lemma nominalAlphabet_ge_10:
  assumes "p \<noteq> []"
  shows "10 \<le> nominalAlphabet p"
proof -
  from assms obtain c where c: "c \<in> set p" by (cases p) auto
  from char_in_some_class [of c] c
  have "test isLowerAZ p \<or> test isUpperAZ p \<or> test isDigit p \<or> test isNonAlnum p"
    by (auto simp: test_def list_ex_iff)
  then show ?thesis by (auto simp: nominalAlphabet_def)
qed

lemma calculateEntropy_charset:
  "calculateEntropy p = times (length p) (log2 (nominalAlphabet p))"
  by (simp add: calculateEntropy_def nominalAlphabet_def Let_def)

lemma calculateEntropy_finite:
  assumes "p \<noteq> []"
  shows "calculateEntropy p = Finite (entropyBits p)"
  using nominalAlphabet_ge_10 [OF assms]
  by (simp add: calculateEntropy_charset log2_def times_def entropyBits_def)

lemma calculateEntropy_empty: "calculateEntropy [] = NaN"
  by (simp add: calculateEntropy_def test_def log2_def times_def)

text \<open>Thresholds on the entropy are comparisons of integer powers.\<close>

lemma log_threshold:
  assumes "0 < c"
  shows "real k < real n * log 2 (real c) \<longleftrightarrow> 2 ^ k < c ^ n"
proof -
  have a: "real n * log 2 (real c) = log 2 (real c ^ n)"
    using assms by (simp add: log_nat_power)
  have b: "log 2 ((2::real) ^ k) = real k" by simp
  have "real k < real n * log 2 (real c) \<longleftrightarrow> log 2 ((2::real) ^ k) < log 2 (real c ^ n)"
    by (simp only: a b)
  also have "\<dots> \<longleftrightarrow> (2::real) ^ k < real c ^ n"
    using assms by (intro log_less_cancel_iff) simp_all
  also have "\<dots> \<longleftrightarrow> real (2 ^ k) < real (c ^ n)" by simp
  also have "\<dots> \<longleftrightarrow> 2 ^ k < c ^ n" by (rule of_nat_less_iff)
  finally show ?thesis .
qed

lemma entropyBits_gt:
  assumes "p \<noteq> []"
  shows "real k < entropyBits p \<longleftrightarrow> 2 ^ k < nominalAlphabet p ^ length p"
  unfolding entropyBits_def using nominalAlphabet_ge_10 [OF assms]
  by (intro log_threshold) simp

lemma entropyBits_mono:
  assumes "p \<noteq> []" and "length p \<le> n"
  shows "entropyBits p \<le> real n * log 2 (real (nominalAlphabet p))"
proof -
  have "0 \<le> log 2 (real (nominalAlphabet p))"
    using nominalAlphabet_ge_10 [OF assms(1)] by simp
  then show ?thesis unfolding entropyBits_def using assms(2)
    by (intro mult_right_mono) simp_all
qed

text \<open>\<^verbatim>\<open>indexOf\<close> finds the first occurrence, so a character is repeated exactly when some
  position is not the first index of its character.\<close>

lemma indexOf_found:
  "x \<in> set xs \<Longrightarrow> 0 \<le> indexOf xs x \<and> nat (indexOf xs x) < length xs \<and> xs ! nat (indexOf xs x) = x"
proof (induction xs)
  case Nil
  then show ?case by simp
next
  case (Cons y ys)
  show ?case
  proof (cases "y = x")
    case True
    then show ?thesis by simp
  next
    case False
    with Cons.prems have "x \<in> set ys" by simp
    from Cons.IH [OF this] False show ?thesis by (simp add: Let_def nat_add_distrib)
  qed
qed

lemma indexOf_le:
  "i < length xs \<Longrightarrow> indexOf xs (xs ! i) \<le> int i"
proof (induction xs arbitrary: i)
  case Nil
  then show ?case by simp
next
  case (Cons y ys)
  show ?case
  proof (cases i)
    case 0
    then show ?thesis by simp
  next
    case (Suc j)
    with Cons.prems have "j < length ys" by simp
    from Cons.IH [OF this] Suc show ?thesis by (simp add: Let_def)
  qed
qed

lemma zip_upt_iff:
  "(x, i) \<in> set (zip p [0..<length p]) \<longleftrightarrow> i < length p \<and> x = p ! i"
proof
  assume "(x, i) \<in> set (zip p [0..<length p])"
  then obtain k where "k < length p" "x = p ! k" "i = [0..<length p] ! k"
    by (auto simp: set_zip)
  then show "i < length p \<and> x = p ! i" by simp
next
  assume a: "i < length p \<and> x = p ! i"
  then have "(p ! i, [0..<length p] ! i) \<in> set (zip p [0..<length p])"
    by (simp add: set_zip) (rule exI [of _ i], simp)
  with a show "(x, i) \<in> set (zip p [0..<length p])" by simp
qed

lemma hasRepeatedChars_index:
  "hasRepeatedChars p \<longleftrightarrow> (\<exists>i < length p. indexOf p (p ! i) \<noteq> int i)"
proof -
  have "hasRepeatedChars p \<longleftrightarrow>
      (\<exists>x \<in> set (zip p [0..<length p]). indexOf p (fst x) \<noteq> int (snd x))"
    by (simp add: hasRepeatedChars_def Let_def filter_empty_conv split_beta)
  also have "\<dots> \<longleftrightarrow> (\<exists>x i. (x, i) \<in> set (zip p [0..<length p]) \<and> indexOf p x \<noteq> int i)"
    by (simp add: Bex_def)
  also have "\<dots> \<longleftrightarrow> (\<exists>i < length p. indexOf p (p ! i) \<noteq> int i)"
    unfolding zip_upt_iff by blast
  finally show ?thesis .
qed

lemma not_distinct_pair:
  assumes "\<not> distinct p"
  shows "\<exists>i j. i < length p \<and> j < length p \<and> i < j \<and> p ! i = p ! j"
proof -
  from assms obtain a b where ab: "a < length p" "b < length p" "a \<noteq> b" "p ! a = p ! b"
    by (auto simp: distinct_conv_nth)
  show ?thesis
  proof (cases "a < b")
    case True
    with ab show ?thesis by blast
  next
    case False
    with ab have "b < a" by simp
    moreover from ab have "p ! b = p ! a" by simp
    ultimately show ?thesis using ab(1,2) by blast
  qed
qed

lemma hasRepeatedChars_distinct: "hasRepeatedChars p \<longleftrightarrow> \<not> distinct p"
proof
  assume "hasRepeatedChars p"
  then obtain i where i: "i < length p" and ne: "indexOf p (p ! i) \<noteq> int i"
    by (auto simp: hasRepeatedChars_index)
  let ?k = "nat (indexOf p (p ! i))"
  from i have "p ! i \<in> set p" by simp
  from indexOf_found [OF this]
  have k: "0 \<le> indexOf p (p ! i)" "?k < length p" "p ! ?k = p ! i" by simp_all
  from ne k(1) have "?k \<noteq> i" by linarith
  with k(2,3) i show "\<not> distinct p" unfolding distinct_conv_nth by blast
next
  assume "\<not> distinct p"
  from not_distinct_pair [OF this]
  obtain i j where ij: "i < length p" "j < length p" "i < j" "p ! i = p ! j" by blast
  from indexOf_le [OF ij(1)] ij(3,4) have "indexOf p (p ! j) \<noteq> int j" by simp
  with ij(2) show "hasRepeatedChars p" unfolding hasRepeatedChars_index by blast
qed

lemma analyzePassword_fields:
  "length_a (analyzePassword p) = length p"
  "hasUppercase (analyzePassword p) = test isUpperAZ p"
  "hasLowercase (analyzePassword p) = test isLowerAZ p"
  "hasNumbers (analyzePassword p) = test isDigit p"
  "hasSymbols (analyzePassword p) = test isNonAlnum p"
  "hasRepeated (analyzePassword p) = hasRepeatedChars p"
  "hasSequential (analyzePassword p) = hasSequentialChars p"
  "entropy (analyzePassword p) = calculateEntropy p"
  by (simp_all add: analyzePassword_def Let_def)

lemma analyzePassword_score:
  "score (analyzePassword p) =
     max 0 (min 100 (lengthPoints (length p) + flagPoints (analyzePassword p) +
       entropyPoints (calculateEntropy p)))"
proof -
  let ?a = "\<lparr> length_a = length p, hasUppercase = test isUpperAZ p,
      hasLowercase = test isLowerAZ p, hasNumbers = test isDigit p,
      hasSymbols = test isNonAlnum p, hasRepeated = hasRepeatedChars p,
      hasSequential = hasSequentialChars p, entropy = calculateEntropy p,
      score = 0, level = ''Very Weak'' \<rparr>"
  have "score (analyzePassword p) = calculateStrengthScore ?a"
    by (simp add: analyzePassword_def Let_def)
  also have "\<dots> = max 0 (min 100 (lengthPoints (length_a ?a) + flagPoints ?a +
       entropyPoints (entropy ?a)))"
    by (rule calculateStrengthScore_sum)
  also have "flagPoints ?a = flagPoints (analyzePassword p)"
    by (simp add: flagPoints_def analyzePassword_fields)
  finally show ?thesis by simp
qed

lemma analyzePassword_level:
  "level (analyzePassword p) = getStrengthLevel (score (analyzePassword p))"
  by (simp add: analyzePassword_def Let_def)

lemma specScore_sum:
  assumes "p \<noteq> []"
  shows "specScore p =
     max 0 (min 100 (lengthPoints (length p) + flagPoints (analyzePassword p) +
       entropyPoints (calculateEntropy p)))"
  unfolding specScore_def sum_regroup
  by (simp only: lengthPoints_def flagPoints_def entropyPoints_def analyzePassword_fields
      hasRepeatedChars_distinct calculateEntropy_finite [OF assms] numGreater_def jsnumber.case)

lemma lengthPoints_mono: "m \<le> n \<Longrightarrow> lengthPoints m \<le> lengthPoints n"
  by (simp add: lengthPoints_def)

lemma entropyPoints_mono: "x \<le> y \<Longrightarrow> entropyPoints (Finite x) \<le> entropyPoints (Finite y)"
  by (simp add: entropyPoints_def numGreater_def)

lemma nominalAlphabet_flags:
  "nominalAlphabet p =
     (if hasLowercase (analyzePassword p) then 26 else 0) +
     (if hasUppercase (analyzePassword p) then 26 else 0) +
     (if hasNumbers (analyzePassword p) then 10 else 0) +
     (if hasSymbols (analyzePassword p) then 32 else 0)"
  by (simp only: nominalAlphabet_def analyzePassword_fields)

subsection \<open>Analyser: the score\<close>

text \<open>
  Claim C5. For every non-empty password the score \<^verbatim>\<open>analyzePassword\<close> stores is the sum
  the specification states (\<open>specScore\<close>): base 0, +25, +15 and +10 for length at
  least 8, 12 and 16, +10, +10, +10 and +15 for uppercase, lowercase, digits and symbols
  present, +10 and +5 for entropy above 40 and above 60 bits, -10 for a repeated
  character, -15 for a sequential run, -20 for length below 8, clamped to the range
  from 0 to 100; and the entropy it stores is the finite number \<open>entropyBits\<close>, the
  length times the binary logarithm of the summed nominal alphabet sizes.
\<close>

theorem analyzePassword_score_formula:
  assumes "password \<noteq> []"
  shows "score (analyzePassword password) = specScore password \<and>
         entropy (analyzePassword password) = Finite (entropyBits password) \<and>
         0 \<le> score (analyzePassword password) \<and> score (analyzePassword password) \<le> 100"
proof -
  have "score (analyzePassword password) = specScore password"
    by (simp only: analyzePassword_score specScore_sum [OF assms])
  moreover have "entropy (analyzePassword password) = Finite (entropyBits password)"
    by (simp add: analyzePassword_fields calculateEntropy_finite [OF assms])
  moreover have "0 \<le> score (analyzePassword password) \<and> score (analyzePassword password) \<le> 100"
    by (simp add: analyzePassword_score)
  ultimately show ?thesis by simp
qed

lemma ex1_flags:
  "test isUpperAZ ''Tr0ub4dor&3''" "test isLowerAZ ''Tr0ub4dor&3''"
  "test isDigit ''Tr0ub4dor&3''" "test isNonAlnum ''Tr0ub4dor&3''"
  "\<not> distinct ''Tr0ub4dor&3''" "\<not> hasSequentialChars ''Tr0ub4dor&3''"
  by code_simp+

text \<open>
  A run of C5: \<open>Tr0ub4dor&3\<close> has 11 characters of all four classes (alphabet 94,
  entropy above 60 bits) and a repeated \<open>r\<close>: 25 + 45 + 15 - 10 = 75.
\<close>

theorem analyzePassword_score_formula_witness:
  "''Tr0ub4dor&3'' \<noteq> [] \<and> score (analyzePassword ''Tr0ub4dor&3'') = 75 \<and>
   entropy (analyzePassword ''Tr0ub4dor&3'') = Finite (11 * log 2 94)"
proof -
  have ne: "''Tr0ub4dor&3'' \<noteq> []" by simp
  have n: "nominalAlphabet ''Tr0ub4dor&3'' = 94"
    by (simp add: nominalAlphabet_def ex1_flags)
  have e40: "40 < entropyBits ''Tr0ub4dor&3''"
    using entropyBits_gt [OF ne, of 40] by (simp add: n)
  have e60: "60 < entropyBits ''Tr0ub4dor&3''"
    using entropyBits_gt [OF ne, of 60] by (simp add: n)
  have s: "specScore ''Tr0ub4dor&3'' = 75"
    by (simp add: specScore_def ex1_flags e40 e60)
  have b: "entropyBits ''Tr0ub4dor&3'' = 11 * log 2 94"
    by (simp add: entropyBits_def n)
  from analyzePassword_score_formula [OF ne] s b ne show ?thesis by simp
qed

text \<open>
  Claim C6. Of two non-empty passwords with the same four character-class flags and
  the same repeated-character and sequential-run flags, the one that is at least as
  long has at least the score of the other.
\<close>

theorem score_monotone_in_length:
  assumes "p \<noteq> []" and "q \<noteq> []" and "length p \<le> length q"
    and "hasUppercase (analyzePassword p) = hasUppercase (analyzePassword q)"
    and "hasLowercase (analyzePassword p) = hasLowercase (analyzePassword q)"
    and "hasNumbers (analyzePassword p) = hasNumbers (analyzePassword q)"
    and "hasSymbols (analyzePassword p) = hasSymbols (analyzePassword q)"
    and "hasRepeated (analyzePassword p) = hasRepeated (analyzePassword q)"
    and "hasSequential (analyzePassword p) = hasSequential (analyzePassword q)"
  shows "score (analyzePassword p) \<le> score (analyzePassword q)"
proof -
  have f: "flagPoints (analyzePassword p) = flagPoints (analyzePassword q)"
    by (simp only: flagPoints_def assms(4-9))
  have n: "nominalAlphabet p = nominalAlphabet q"
    by (simp only: nominalAlphabet_flags assms(4-7))
  have "entropyBits p \<le> real (length q) * log 2 (real (nominalAlphabet p))"
    using assms(1,3) by (rule entropyBits_mono)
  then have "entropyBits p \<le> entropyBits q"
    by (simp only: n entropyBits_def)
  then have e: "entropyPoints (calculateEntropy p) \<le> entropyPoints (calculateEntropy q)"
    by (simp only: calculateEntropy_finite [OF assms(1)] calculateEntropy_finite [OF assms(2)]
        entropyPoints_mono)
  have l: "lengthPoints (length p) \<le> lengthPoints (length q)"
    using assms(3) by (rule lengthPoints_mono)
  from l e f show ?thesis by (simp only: analyzePassword_score)
qed

lemma ex2_flags:
  "test isUpperAZ ''Kp7#''" "test isLowerAZ ''Kp7#''"
  "test isDigit ''Kp7#''" "test isNonAlnum ''Kp7#''"
  "\<not> hasRepeatedChars ''Kp7#''" "\<not> hasSequentialChars ''Kp7#''"
  "test isUpperAZ ''Kp7#xqWz''" "test isLowerAZ ''Kp7#xqWz''"
  "test isDigit ''Kp7#xqWz''" "test isNonAlnum ''Kp7#xqWz''"
  "\<not> hasRepeatedChars ''Kp7#xqWz''" "\<not> hasSequentialChars ''Kp7#xqWz''"
  by code_simp+

text \<open>A run of C6: four and eight characters of all four classes.\<close>

theorem score_monotone_in_length_witness:
  "''Kp7#'' \<noteq> [] \<and> ''Kp7#xqWz'' \<noteq> [] \<and> length ''Kp7#'' \<le> length ''Kp7#xqWz'' \<and>
   hasUppercase (analyzePassword ''Kp7#'') = hasUppercase (analyzePassword ''Kp7#xqWz'') \<and>
   hasLowercase (analyzePassword ''Kp7#'') = hasLowercase (analyzePassword ''Kp7#xqWz'') \<and>
   hasNumbers (analyzePassword ''Kp7#'') = hasNumbers (analyzePassword ''Kp7#xqWz'') \<and>
   hasSymbols (analyzePassword ''Kp7#'') = hasSymbols (analyzePassword ''Kp7#xqWz'') \<and>
   hasRepeated (analyzePassword ''Kp7#'') = hasRepeated (analyzePassword ''Kp7#xqWz'') \<and>
   hasSequential (analyzePassword ''Kp7#'') = hasSequential (analyzePassword ''Kp7#xqWz'') \<and>
   score (analyzePassword ''Kp7#'') \<le> score (analyzePassword ''Kp7#xqWz'')"
  using score_monotone_in_length [of "''Kp7#''" "''Kp7#xqWz''"]
  by (simp add: analyzePassword_fields ex2_flags)

subsection \<open>Analyser: the strength display\<close>

lemma updateSuggestions_frame:
  "strengthScore (updateSuggestions a d) = strengthScore d"
  "strengthLabel (updateSuggestions a d) = strengthLabel d"
  "progressWidth (updateSuggestions a d) = progressWidth d"
  by (simp_all add: updateSuggestions_def Let_def)

lemma updateCriteria_frame:
  "strengthScore (updateCriteria p a d) = strengthScore d"
  "strengthLabel (updateCriteria p a d) = strengthLabel d"
  "progressWidth (updateCriteria p a d) = progressWidth d"
  by (simp_all add: updateCriteria_def Let_def)

lemma checkPasswordStrength_nonempty:
  assumes "password \<noteq> []"
  shows "strengthScore (checkPasswordStrength password d) = Some (score (analyzePassword password))"
    and "strengthLabel (checkPasswordStrength password d) = level (analyzePassword password)"
    and "progressWidth (checkPasswordStrength password d) = score (analyzePassword password)"
  using assms
  by (simp_all add: checkPasswordStrength_def Let_def updateSuggestions_frame
      updateCriteria_frame updateStrengthMeter_def)

lemma getStrengthLevel_cases:
  "getStrengthLevel s \<in> set [''Excellent'', ''Strong'', ''Good'', ''Fair'', ''Weak'', ''Very Weak'']"
  by (simp add: getStrengthLevel_def)

text \<open>
  Without the guard of \<^verbatim>\<open>checkPasswordStrength\<close> the empty string would reach
  \<^verbatim>\<open>0 * Math.log2(0)\<close>: the entropy of its analysis is \<^verbatim>\<open>NaN\<close>.
\<close>

lemma analyzePassword_empty_entropy: "entropy (analyzePassword []) = NaN"
  by (simp add: analyzePassword_fields calculateEntropy_empty)

text \<open>
  Claim C8. \<^verbatim>\<open>checkPasswordStrength\<close> has a result for every string. On the empty string
  it does not analyse: it resets the display (no score text, suggestions hidden, the
  label asking for a password, width 0). On a non-empty string it shows the score of
  \<^verbatim>\<open>analyzePassword\<close>, which is an integer from 0 to 100 computed from a finite entropy
  (never \<^verbatim>\<open>NaN\<close> or \<^verbatim>\<open>-Infinity\<close>), and one of the six level labels.
\<close>

theorem checkPasswordStrength_never_fails:
  "checkPasswordStrength [] d = resetStrengthMeter d \<and>
   strengthScore (checkPasswordStrength [] d) = None \<and>
   suggestionsDisplay (checkPasswordStrength [] d) = ''none'' \<and>
   strengthLabel (checkPasswordStrength [] d) = ''Enter a password to check'' \<and>
   progressWidth (checkPasswordStrength [] d) = 0 \<and>
   (password \<noteq> [] \<longrightarrow>
      strengthScore (checkPasswordStrength password d) =
        Some (score (analyzePassword password)) \<and>
      0 \<le> score (analyzePassword password) \<and> score (analyzePassword password) \<le> 100 \<and>
      (\<exists>e. entropy (analyzePassword password) = Finite e) \<and>
      strengthLabel (checkPasswordStrength password d) = level (analyzePassword password) \<and>
      level (analyzePassword password) \<in>
        set [''Excellent'', ''Strong'', ''Good'', ''Fair'', ''Weak'', ''Very Weak''])"
proof -
  have empty: "checkPasswordStrength [] d = resetStrengthMeter d"
    by (simp add: checkPasswordStrength_def)
  have r: "strengthScore (resetStrengthMeter d) = None"
    "suggestionsDisplay (resetStrengthMeter d) = ''none''"
    "strengthLabel (resetStrengthMeter d) = ''Enter a password to check''"
    "progressWidth (resetStrengthMeter d) = 0"
    by (simp_all add: resetStrengthMeter_def Let_def)
  have nonempty: "strengthScore (checkPasswordStrength password d) =
        Some (score (analyzePassword password)) \<and>
      0 \<le> score (analyzePassword password) \<and> score (analyzePassword password) \<le> 100 \<and>
      (\<exists>e. entropy (analyzePassword password) = Finite e) \<and>
      strengthLabel (checkPasswordStrength password d) = level (analyzePassword password) \<and>
      level (analyzePassword password) \<in>
        set [''Excellent'', ''Strong'', ''Good'', ''Fair'', ''Weak'', ''Very Weak'']"
    if ne: "password \<noteq> []"
  proof -
    have "0 \<le> score (analyzePassword password) \<and> score (analyzePassword password) \<le> 100"
      by (simp add: analyzePassword_score)
    moreover have "\<exists>e. entropy (analyzePassword password) = Finite e"
      by (simp add: analyzePassword_fields calculateEntropy_finite [OF ne])
    moreover have "level (analyzePassword password) \<in>
        set [''Excellent'', ''Strong'', ''Good'', ''Fair'', ''Weak'', ''Very Weak'']"
      unfolding analyzePassword_level by (rule getStrengthLevel_cases)
    ultimately show ?thesis
      using checkPasswordStrength_nonempty [OF ne, of d] by simp
  qed
  from empty r nonempty show ?thesis by simp
qed

text \<open>Runs of C8: the empty string and \<open>Tr0ub4dor&3\<close> on a blank display.\<close>

theorem checkPasswordStrength_never_fails_witness:
  "strengthScore (checkPasswordStrength [] blankDisplay) = None \<and>
   suggestionsDisplay (checkPasswordStrength [] blankDisplay) = ''none'' \<and>
   ''Tr0ub4dor&3'' \<noteq> [] \<and>
   strengthScore (checkPasswordStrength ''Tr0ub4dor&3'' blankDisplay) =
     Some (score (analyzePassword ''Tr0ub4dor&3''))"
  using checkPasswordStrength_never_fails [of blankDisplay "''Tr0ub4dor&3''"]
  by auto

subsection \<open>Analyser: recommendations of the extended analysis\<close>

text \<open>
  Claim C9. For every string, the recommendations of \<^verbatim>\<open>performAdvancedAnalysis\<close> are, in
  this order, the entries for common (critical), leaked (critical), keyboard (warning),
  dictionary (warning), personal (warning), repeated substring (info) and entropy
  below 50 (info), each present exactly when its predicate holds. The entropy
  comparison is \<^verbatim>\<open>basic.entropy < 50\<close>: it holds exactly for a non-empty password of
  fewer than 50 bits, and is false on the empty string, whose entropy is \<^verbatim>\<open>NaN\<close>.
\<close>

theorem performAdvancedAnalysis_recommendations:
  "recommendations (performAdvancedAnalysis password) =
     (if isCommonPassword password
      then [\<lparr>type_r = ''critical'', text_r = ''Avoid common passwords''\<rparr>] else []) @
     (if checkAgainstLeaks password
      then [\<lparr>type_r = ''critical'', text_r = ''This pattern appears in data breaches''\<rparr>]
      else []) @
     (if isKeyboardPattern password
      then [\<lparr>type_r = ''warning'', text_r = ''Avoid keyboard patterns''\<rparr>] else []) @
     (if isDictionaryWord password
      then [\<lparr>type_r = ''warning'', text_r = ''Avoid dictionary words''\<rparr>] else []) @
     (if mightBePersonalInfo password
      then [\<lparr>type_r = ''warning'', text_r = ''Avoid personal information like dates''\<rparr>]
      else []) @
     (if hasRepeatedSubstring password
      then [\<lparr>type_r = ''info'', text_r = ''Avoid repeated character patterns''\<rparr>] else []) @
     (if numLess (entropy (analyzePassword password)) 50
      then [\<lparr>type_r = ''info'', text_r = ''Increase password complexity''\<rparr>] else []) \<and>
   (numLess (entropy (analyzePassword password)) 50 \<longleftrightarrow>
      password \<noteq> [] \<and> entropyBits password < 50)"
proof -
  have "numLess (entropy (analyzePassword password)) 50 \<longleftrightarrow>
      password \<noteq> [] \<and> entropyBits password < 50"
  proof (cases "password = []")
    case True
    then show ?thesis by (simp add: analyzePassword_empty_entropy numLess_def)
  next
    case False
    then show ?thesis
      by (simp add: analyzePassword_fields calculateEntropy_finite numLess_def)
  qed
  moreover have "recommendations (performAdvancedAnalysis password) =
     (if isCommonPassword password
      then [\<lparr>type_r = ''critical'', text_r = ''Avoid common passwords''\<rparr>] else []) @
     (if checkAgainstLeaks password
      then [\<lparr>type_r = ''critical'', text_r = ''This pattern appears in data breaches''\<rparr>]
      else []) @
     (if isKeyboardPattern password
      then [\<lparr>type_r = ''warning'', text_r = ''Avoid keyboard patterns''\<rparr>] else []) @
     (if isDictionaryWord password
      then [\<lparr>type_r = ''warning'', text_r = ''Avoid dictionary words''\<rparr>] else []) @
     (if mightBePersonalInfo password
      then [\<lparr>type_r = ''warning'', text_r = ''Avoid personal information like dates''\<rparr>]
      else []) @
     (if hasRepeatedSubstring password
      then [\<lparr>type_r = ''info'', text_r = ''Avoid repeated character patterns''\<rparr>] else []) @
     (if numLess (entropy (analyzePassword password)) 50
      then [\<lparr>type_r = ''info'', text_r = ''Increase password complexity''\<rparr>] else [])"
    by (simp add: performAdvancedAnalysis_def getAdvancedRecommendations_def
        analyzePattern_def Let_def)
  ultimately show ?thesis by (rule conjI [rotated])
qed

lemma ex3_flags:
  "isCommonPassword ''qwerty12''" "\<not> checkAgainstLeaks ''qwerty12''"
  "isKeyboardPattern ''qwerty12''" "\<not> isDictionaryWord ''qwerty12''"
  "\<not> mightBePersonalInfo ''qwerty12''" "\<not> hasRepeatedSubstring ''qwerty12''"
  "test isLowerAZ ''qwerty12''" "\<not> test isUpperAZ ''qwerty12''"
  "test isDigit ''qwerty12''" "\<not> test isNonAlnum ''qwerty12''"
  by code_simp+

text \<open>
  A run of C9: \<open>qwerty12\<close> is a common password and a keyboard pattern of about 41
  bits; the three recommendations come in the order critical, warning, info.
\<close>

theorem performAdvancedAnalysis_recommendations_witness:
  "recommendations (performAdvancedAnalysis ''qwerty12'') =
     [\<lparr>type_r = ''critical'', text_r = ''Avoid common passwords''\<rparr>,
      \<lparr>type_r = ''warning'', text_r = ''Avoid keyboard patterns''\<rparr>,
      \<lparr>type_r = ''info'', text_r = ''Increase password complexity''\<rparr>]"
proof -
  have ne: "''qwerty12'' \<noteq> []" by simp
  have n: "nominalAlphabet ''qwerty12'' = 36"
    by (simp add: nominalAlphabet_def ex3_flags)
  have "\<not> 50 < entropyBits ''qwerty12''"
    using entropyBits_gt [OF ne, of 50] by (simp add: n)
  moreover have "entropyBits ''qwerty12'' \<noteq> 50"
  proof
    assume "entropyBits ''qwerty12'' = 50"
    then have "49 < entropyBits ''qwerty12''" by simp
    with entropyBits_gt [OF ne, of 49] show False by (simp add: n)
  qed
  ultimately have "numLess (entropy (analyzePassword ''qwerty12'')) 50"
    by (simp add: analyzePassword_fields calculateEntropy_finite [OF ne] numLess_def)
  with performAdvancedAnalysis_recommendations [of "''qwerty12''"] show ?thesis
    by (simp add: ex3_flags)
qed

text \<open>On the empty string no predicate of the extended analysis holds.\<close>

lemma empty_flags:
  "\<not> isCommonPassword []" "\<not> checkAgainstLeaks []" "\<not> isKeyboardPattern []"
  "\<not> isDictionaryWord []" "\<not> mightBePersonalInfo []" "\<not> hasRepeatedSubstring []"
  by code_simp+

end
